theory Spec2Isabelle
  imports Main "HOL-Library.AList" "HOL-Library.Sublist"
begin

section \<open>JavaScript strings\<close>

text \<open>
  Identifiers of the program (voice names, paths, URLs) are modelled as \<open>string\<close>, each
  \<open>char\<close> read as a code point below 256. Free text (the sentence handed to the
  synthesizer, a transcript) is a list of Unicode code points, because the regular
  expression of \<open>stripEmojis\<close> carries the \<open>u\<close> flag and so works on code points.
\<close>

type_synonym utext = "nat list"

subsection \<open>\<open>String.prototype.split\<close> with a one-character separator\<close>

fun split_on :: "char \<Rightarrow> string \<Rightarrow> string list" where
  "split_on sep [] = [[]]"
| "split_on sep (c # cs) =
     (if c = sep then [] # split_on sep cs
      else (case split_on sep cs of
              [] \<Rightarrow> [[c]]
            | p # ps \<Rightarrow> (c # p) # ps))"

subsection \<open>\<open>String.prototype.toLowerCase\<close> on code points below 256\<close>

definition lower_char :: "char \<Rightarrow> char" where
  "lower_char c =
     (let n = (of_char c :: nat)
      in if (65 \<le> n \<and> n \<le> 90) \<or> (192 \<le> n \<and> n \<le> 222 \<and> n \<noteq> 215)
         then char_of (n + 32) else c)"

definition toLowerCase :: "string \<Rightarrow> string" where
  "toLowerCase s = map lower_char s"

subsection \<open>\<open>String.prototype.trim\<close>\<close>

text \<open>White space and line terminators of ECMAScript, as code points.\<close>

definition is_js_whitespace :: "nat \<Rightarrow> bool" where
  "is_js_whitespace c =
     (c = 0x9 \<or> c = 0xA \<or> c = 0xB \<or> c = 0xC \<or> c = 0xD \<or> c = 0x20 \<or> c = 0xA0
      \<or> c = 0x1680 \<or> (0x2000 \<le> c \<and> c \<le> 0x200A) \<or> c = 0x2028 \<or> c = 0x2029
      \<or> c = 0x202F \<or> c = 0x205F \<or> c = 0x3000 \<or> c = 0xFEFF)"

definition trim :: "utext \<Rightarrow> utext" where
  "trim s = rev (dropWhile is_js_whitespace (rev (dropWhile is_js_whitespace s)))"

subsection \<open>Unicode property tables\<close>

text \<open>
  The Unicode properties \<open>Emoji\<close> and \<open>Emoji_Presentation\<close> that the regular expression
  of \<open>stripEmojis\<close> names are data of the JavaScript engine that runs the program, and
  differ from one Unicode version to the next; the program takes them as it finds them.
  The tables below are those of Unicode 15.0 (emoji-data), as inclusive ranges. They
  serve as the data of the sample engine only. In them, as in every version, the property
  \<open>Emoji\<close> holds of the ASCII digits, of \<open>#\<close> and of \<open>*\<close>.
\<close>

definition in_ranges :: "(nat \<times> nat) list \<Rightarrow> nat \<Rightarrow> bool" where
  "in_ranges rs c = list_ex (\<lambda>r. fst r \<le> c \<and> c \<le> snd r) rs"

definition Emoji_ranges :: "(nat \<times> nat) list" where
  "Emoji_ranges =
    [(0x23, 0x23), (0x2A, 0x2A), (0x30, 0x39), (0xA9, 0xA9), (0xAE, 0xAE), (0x203C, 0x203C),
     (0x2049, 0x2049), (0x2122, 0x2122), (0x2139, 0x2139), (0x2194, 0x2199), (0x21A9, 0x21AA),
     (0x231A, 0x231B), (0x2328, 0x2328), (0x23CF, 0x23CF), (0x23E9, 0x23F3), (0x23F8, 0x23FA),
     (0x24C2, 0x24C2), (0x25AA, 0x25AB), (0x25B6, 0x25B6), (0x25C0, 0x25C0), (0x25FB, 0x25FE),
     (0x2600, 0x2604), (0x260E, 0x260E), (0x2611, 0x2611), (0x2614, 0x2615), (0x2618, 0x2618),
     (0x261D, 0x261D), (0x2620, 0x2620), (0x2622, 0x2623), (0x2626, 0x2626), (0x262A, 0x262A),
     (0x262E, 0x262F), (0x2638, 0x263A), (0x2640, 0x2640), (0x2642, 0x2642), (0x2648, 0x2653),
     (0x265F, 0x2660), (0x2663, 0x2663), (0x2665, 0x2666), (0x2668, 0x2668), (0x267B, 0x267B),
     (0x267E, 0x267F), (0x2692, 0x2697), (0x2699, 0x2699), (0x269B, 0x269C), (0x26A0, 0x26A1),
     (0x26A7, 0x26A7), (0x26AA, 0x26AB), (0x26B0, 0x26B1), (0x26BD, 0x26BE), (0x26C4, 0x26C5),
     (0x26C8, 0x26C8), (0x26CE, 0x26CF), (0x26D1, 0x26D1), (0x26D3, 0x26D4), (0x26E9, 0x26EA),
     (0x26F0, 0x26F5), (0x26F7, 0x26FA), (0x26FD, 0x26FD), (0x2702, 0x2702), (0x2705, 0x2705),
     (0x2708, 0x270D), (0x270F, 0x270F), (0x2712, 0x2712), (0x2714, 0x2714), (0x2716, 0x2716),
     (0x271D, 0x271D), (0x2721, 0x2721), (0x2728, 0x2728), (0x2733, 0x2734), (0x2744, 0x2744),
     (0x2747, 0x2747), (0x274C, 0x274C), (0x274E, 0x274E), (0x2753, 0x2755), (0x2757, 0x2757),
     (0x2763, 0x2764), (0x2795, 0x2797), (0x27A1, 0x27A1), (0x27B0, 0x27B0), (0x27BF, 0x27BF),
     (0x2934, 0x2935), (0x2B05, 0x2B07), (0x2B1B, 0x2B1C), (0x2B50, 0x2B50), (0x2B55, 0x2B55),
     (0x3030, 0x3030), (0x303D, 0x303D), (0x3297, 0x3297), (0x3299, 0x3299), (0x1F004, 0x1F004),
     (0x1F0CF, 0x1F0CF), (0x1F170, 0x1F171), (0x1F17E, 0x1F17F), (0x1F18E, 0x1F18E),
     (0x1F191, 0x1F19A), (0x1F1E6, 0x1F1FF), (0x1F201, 0x1F202), (0x1F21A, 0x1F21A),
     (0x1F22F, 0x1F22F), (0x1F232, 0x1F23A), (0x1F250, 0x1F251), (0x1F300, 0x1F321),
     (0x1F324, 0x1F393), (0x1F396, 0x1F397), (0x1F399, 0x1F39B), (0x1F39E, 0x1F3F0),
     (0x1F3F3, 0x1F3F5), (0x1F3F7, 0x1F4FD), (0x1F4FF, 0x1F53D), (0x1F549, 0x1F54E),
     (0x1F550, 0x1F567), (0x1F56F, 0x1F570), (0x1F573, 0x1F57A), (0x1F587, 0x1F587),
     (0x1F58A, 0x1F58D), (0x1F590, 0x1F590), (0x1F595, 0x1F596), (0x1F5A4, 0x1F5A5),
     (0x1F5A8, 0x1F5A8), (0x1F5B1, 0x1F5B2), (0x1F5BC, 0x1F5BC), (0x1F5C2, 0x1F5C4),
     (0x1F5D1, 0x1F5D3), (0x1F5DC, 0x1F5DE), (0x1F5E1, 0x1F5E1), (0x1F5E3, 0x1F5E3),
     (0x1F5E8, 0x1F5E8), (0x1F5EF, 0x1F5EF), (0x1F5F3, 0x1F5F3), (0x1F5FA, 0x1F64F),
     (0x1F680, 0x1F6C5), (0x1F6CB, 0x1F6D2), (0x1F6D5, 0x1F6D7), (0x1F6DC, 0x1F6E5),
     (0x1F6E9, 0x1F6E9), (0x1F6EB, 0x1F6EC), (0x1F6F0, 0x1F6F0), (0x1F6F3, 0x1F6FC),
     (0x1F7E0, 0x1F7EB), (0x1F7F0, 0x1F7F0), (0x1F90C, 0x1F93A), (0x1F93C, 0x1F945),
     (0x1F947, 0x1F9FF), (0x1FA70, 0x1FA7C), (0x1FA80, 0x1FA88), (0x1FA90, 0x1FABD),
     (0x1FABF, 0x1FAC5), (0x1FACE, 0x1FADB), (0x1FAE0, 0x1FAE8), (0x1FAF0, 0x1FAF8)]"

definition Emoji_Presentation_ranges :: "(nat \<times> nat) list" where
  "Emoji_Presentation_ranges =
    [(0x231A, 0x231B), (0x23E9, 0x23EC), (0x23F0, 0x23F0), (0x23F3, 0x23F3), (0x25FD, 0x25FE),
     (0x2614, 0x2615), (0x2648, 0x2653), (0x267F, 0x267F), (0x2693, 0x2693), (0x26A1, 0x26A1),
     (0x26AA, 0x26AB), (0x26BD, 0x26BE), (0x26C4, 0x26C5), (0x26CE, 0x26CE), (0x26D4, 0x26D4),
     (0x26EA, 0x26EA), (0x26F2, 0x26F3), (0x26F5, 0x26F5), (0x26FA, 0x26FA), (0x26FD, 0x26FD),
     (0x2705, 0x2705), (0x270A, 0x270B), (0x2728, 0x2728), (0x274C, 0x274C), (0x274E, 0x274E),
     (0x2753, 0x2755), (0x2757, 0x2757), (0x2795, 0x2797), (0x27B0, 0x27B0), (0x27BF, 0x27BF),
     (0x2B1B, 0x2B1C), (0x2B50, 0x2B50), (0x2B55, 0x2B55), (0x1F004, 0x1F004),
     (0x1F0CF, 0x1F0CF), (0x1F18E, 0x1F18E), (0x1F191, 0x1F19A), (0x1F1E6, 0x1F1FF),
     (0x1F201, 0x1F201), (0x1F21A, 0x1F21A), (0x1F22F, 0x1F22F), (0x1F232, 0x1F236),
     (0x1F238, 0x1F23A), (0x1F250, 0x1F251), (0x1F300, 0x1F320), (0x1F32D, 0x1F335),
     (0x1F337, 0x1F37C), (0x1F37E, 0x1F393), (0x1F3A0, 0x1F3CA), (0x1F3CF, 0x1F3D3),
     (0x1F3E0, 0x1F3F0), (0x1F3F4, 0x1F3F4), (0x1F3F8, 0x1F43E), (0x1F440, 0x1F440),
     (0x1F442, 0x1F4FC), (0x1F4FF, 0x1F53D), (0x1F54B, 0x1F54E), (0x1F550, 0x1F567),
     (0x1F57A, 0x1F57A), (0x1F595, 0x1F596), (0x1F5A4, 0x1F5A4), (0x1F5FB, 0x1F64F),
     (0x1F680, 0x1F6C5), (0x1F6CC, 0x1F6CC), (0x1F6D0, 0x1F6D2), (0x1F6D5, 0x1F6D7),
     (0x1F6DC, 0x1F6DF), (0x1F6EB, 0x1F6EC), (0x1F6F4, 0x1F6FC), (0x1F7E0, 0x1F7EB),
     (0x1F7F0, 0x1F7F0), (0x1F90C, 0x1F93A), (0x1F93C, 0x1F945), (0x1F947, 0x1F9FF),
     (0x1FA70, 0x1FA7C), (0x1FA80, 0x1FA88), (0x1FA90, 0x1FABD), (0x1FABF, 0x1FAC5),
     (0x1FACE, 0x1FADB), (0x1FAE0, 0x1FAE8), (0x1FAF0, 0x1FAF8)]"

definition unicode15_Emoji :: "nat \<Rightarrow> bool" where
  "unicode15_Emoji c = in_ranges Emoji_ranges c"

definition unicode15_Emoji_Presentation :: "nat \<Rightarrow> bool" where
  "unicode15_Emoji_Presentation c = in_ranges Emoji_Presentation_ranges c"

subsection \<open>\<open>text.replace(/[class]+/gu, '')\<close>\<close>

text \<open>
  The global replace scans the text from the left; at a code point of the class it
  matches the longest run of class members (the \<open>+\<close> is greedy), replaces the run by the
  empty string and goes on after it; any other code point is copied.
\<close>

function replace_runs :: "(nat \<Rightarrow> bool) \<Rightarrow> utext \<Rightarrow> utext" where
  "replace_runs cls [] = []"
| "replace_runs cls (c # cs) =
     (if cls c then replace_runs cls (dropWhile cls cs) else c # replace_runs cls cs)"
  by pat_completeness auto
termination
  by (relation "measure (\<lambda>(cls, s). length s)")
     (auto simp: length_dropWhile_le le_imp_less_Suc)

section \<open>Paths (POSIX \<open>path\<close> module)\<close>

text \<open>
  The functions of the \<open>path\<close> module are modelled by their POSIX variants on every
  platform. On \<open>win32\<close> the program gets \<open>path.win32\<close>, which writes the separator as a
  backslash: the paths built there denote the same files, in another spelling.
\<close>

definition is_absolute :: "string \<Rightarrow> bool" where
  "is_absolute p = (case p of [] \<Rightarrow> False | c # _ \<Rightarrow> c = CHR ''/'')"

definition path_segments :: "string \<Rightarrow> string list" where
  "path_segments p = filter (\<lambda>s. s \<noteq> [] \<and> s \<noteq> ''.'') (split_on CHR ''/'' p)"

text \<open>Resolution of \<open>..\<close> segments; \<open>rel\<close> lets them remain at the front of a relative path.\<close>

fun collapse :: "bool \<Rightarrow> string list \<Rightarrow> string list \<Rightarrow> string list" where
  "collapse rel acc [] = rev acc"
| "collapse rel acc (s # ss) =
     (if s = ''..'' then
        (case acc of
           [] \<Rightarrow> collapse rel (if rel then [s] else []) ss
         | a # rest \<Rightarrow> if a = ''..'' then collapse rel (s # acc) ss else collapse rel rest ss)
      else collapse rel (s # acc) ss)"

fun intercalate :: "string \<Rightarrow> string list \<Rightarrow> string" where
  "intercalate sep [] = []"
| "intercalate sep [s] = s"
| "intercalate sep (s # t # ss) = s @ sep @ intercalate sep (t # ss)"

definition path_normalize :: "string \<Rightarrow> string" where
  "path_normalize p =
     (if p = [] then ''.''
      else
        (let ab = is_absolute p;
             trailing = (last p = CHR ''/'');
             body = intercalate ''/'' (collapse (\<not> ab) [] (path_segments p))
         in if body = [] then (if ab then ''/'' else if trailing then ''./'' else ''.'')
            else (if ab then ''/'' else []) @ body @ (if trailing then ''/'' else [])))"

definition path_join :: "string list \<Rightarrow> string" where
  "path_join args =
     (case filter (\<lambda>a. a \<noteq> []) args of
        [] \<Rightarrow> ''.''
      | parts \<Rightarrow> path_normalize (intercalate ''/'' parts))"

text \<open>
  \<open>path.resolve\<close>: the arguments are taken from the right until an absolute one is met;
  the working directory is the last resort. The result is absolute and normalised.
\<close>

fun resolve_from_right :: "string list \<Rightarrow> string \<Rightarrow> string" where
  "resolve_from_right [] acc = acc"
| "resolve_from_right (a # rest) acc =
     (if a = [] then resolve_from_right rest acc
      else if is_absolute a then a @ ''/'' @ acc
      else resolve_from_right rest (a @ ''/'' @ acc))"

definition path_resolve :: "string \<Rightarrow> string list \<Rightarrow> string" where
  "path_resolve wd args =
     (let joined = resolve_from_right (rev (wd # args)) []
      in ''/'' @ intercalate ''/'' (collapse (\<not> is_absolute joined) [] (path_segments joined)))"

section \<open>Values, files and the outside world\<close>

text \<open>A parsed JSON value; a property read that finds nothing is \<open>None\<close> (\<open>undefined\<close>).\<close>

datatype jvalue =
    JNull
  | JBool bool
  | JNum int
  | JStr string
  | JArr "jvalue list"
  | JObj "(string \<times> jvalue) list"

fun truthy :: "jvalue \<Rightarrow> bool" where
  "truthy JNull = False"
| "truthy (JBool b) = b"
| "truthy (JNum n) = (n \<noteq> 0)"
| "truthy (JStr s) = (s \<noteq> [])"
| "truthy (JArr _) = True"
| "truthy (JObj _) = True"

fun js_get :: "jvalue \<Rightarrow> string \<Rightarrow> jvalue option" where
  "js_get (JObj kvs) k = map_of kvs k"
| "js_get _ k = None"

text \<open>
  The content of a file is kept in the form the program reads it: \<open>Json v\<close> is a file whose
  text is the JSON serialisation of \<open>v\<close> (what \<open>JSON.stringify\<close> writes and \<open>JSON.parse\<close>
  reads back), \<open>Archive es\<close> is a well-formed zip archive with the entries \<open>es\<close> (a relative
  path and, for a file entry, its content), and \<open>Blob s\<close> is any other byte sequence:
  neither valid JSON nor a valid archive.
\<close>

datatype content =
    Blob string
  | Json jvalue
  | Archive "(string \<times> content option) list"

datatype node = Dir | File content

type_synonym filesystem = "(string list \<times> node) list"

record VoiceModel =
  name :: string
  onnx :: string
  json :: string

datatype error =
    NotFound404 string
  | BadStatus string nat
  | DownloadError string string
  | CommandFailed "int option" string
  | UnsupportedPlatform string
  | PiperExited "int option"
  | SpawnError string
  | ModuleNotFound string
  | SyntaxError string
  | TypeError string
  | FsError string "string list"
  | ExtractError string
  | VoskError string
  | ModelNotFound string
  | NoTtsConfig string

datatype response =
    Response nat content
  | BrokenTransfer content string
  | RequestError string

datatype proc_result =
    Exited "int option" string string
  | SpawnFailed string

datatype VoskModel = VoskModel string

datatype alternative = Alternative (alt_text: "utext option")

datatype vosk_result = ResultNull | ResultObj "alternative list option"

datatype vosk_outcome = Final vosk_result | FinalThrows string

datatype transcript = Text utext | NoSpeech

datatype event =
    EvDownload string string
  | EvExtract string string
  | EvUnlink string
  | EvSpawn string "string list" utext
  | EvWriteFile string
  | EvModelNew string
  | EvLogError error
  | EvUnhandledRejection error

text \<open>
  What the program does not contain: the platform, the directory of the scripts, the
  working directory, \<open>config.vaskmodel\<close>, the catalog \<open>config/voice_dl.json\<close>, the network,
  the behaviour of spawned processes (exit status, output, and what they leave on disk),
  the recognition library, the UUID generator, and the Unicode properties \<open>Emoji\<close> and
  \<open>Emoji_Presentation\<close> of the JavaScript engine.
\<close>

record env =
  platform :: string
  dirname :: string
  cwd :: string
  vaskmodel :: string
  VOICE_MODELS :: "VoiceModel list"
  https_get :: "string \<Rightarrow> response"
  spawn_process :: "string \<Rightarrow> string list \<Rightarrow> utext \<Rightarrow> filesystem \<Rightarrow> proc_result \<times> filesystem"
  vosk_Model :: "filesystem \<Rightarrow> string list \<Rightarrow> string option"
  vosk_finalResult :: "content \<Rightarrow> vosk_outcome"
  randomUUID :: "nat \<Rightarrow> string"
  Emoji :: "nat \<Rightarrow> bool"
  Emoji_Presentation :: "nat \<Rightarrow> bool"

text \<open>
  The state of the process: the file system, the module-level \<open>model\<close> of stt.js, the
  module-level \<open>ttsConfigs\<close> of tts.js, the cache of \<open>require\<close>, the number of UUIDs
  drawn, and the trace of the effects performed so far.
\<close>

record world =
  fs :: filesystem
  model :: "VoskModel option"
  ttsConfigs :: "(string \<times> jvalue) list"
  modules :: "(string list \<times> jvalue) list"
  uuids :: nat
  trace :: "event list"

text \<open>
  The result of an awaited call: a value, a thrown error (a rejected promise), the end of
  the process by \<open>process.exit\<close>, or a promise that never settles.
\<close>

datatype 'a res = Ok 'a | Throw error | Halt nat | Hang

type_synonym 'a io = "world \<Rightarrow> 'a res \<times> world"

definition ret :: "'a \<Rightarrow> 'a io" where
  "ret x w = (Ok x, w)"

definition throw :: "error \<Rightarrow> 'a io" where
  "throw e w = (Throw e, w)"

definition andThen :: "'a io \<Rightarrow> ('a \<Rightarrow> 'b io) \<Rightarrow> 'b io" where
  "andThen m f w =
     (case m w of
        (Ok x, w') \<Rightarrow> f x w'
      | (Throw e, w') \<Rightarrow> (Throw e, w')
      | (Halt n, w') \<Rightarrow> (Halt n, w')
      | (Hang, w') \<Rightarrow> (Hang, w'))"

definition try_catch :: "'a io \<Rightarrow> (error \<Rightarrow> 'a io) \<Rightarrow> 'a io" where
  "try_catch m h w =
     (case m w of
        (Throw e, w') \<Rightarrow> h e w'
      | r \<Rightarrow> r)"

definition emit :: "event \<Rightarrow> unit io" where
  "emit ev w = (Ok (), w\<lparr>trace := trace w @ [ev]\<rparr>)"

definition process_exit :: "nat \<Rightarrow> 'a io" where
  "process_exit n w = (Halt n, w)"

section \<open>The file system (\<open>fs\<close>, \<open>fs-extra\<close>)\<close>

text \<open>
  A file or directory is addressed by the segments of its resolved path. The root always
  exists. Only the failures that the state decides are modelled (a missing entry, a file
  where a directory is needed, a directory where a file is needed).
\<close>

definition fs_key :: "env \<Rightarrow> string \<Rightarrow> string list" where
  "fs_key ev p = path_segments (path_resolve (cwd ev) [p])"

definition exists_at :: "filesystem \<Rightarrow> string list \<Rightarrow> bool" where
  "exists_at f k = (k = [] \<or> map_of f k \<noteq> None)"

definition dir_at :: "filesystem \<Rightarrow> string list \<Rightarrow> bool" where
  "dir_at f k = (k = [] \<or> map_of f k = Some Dir)"

text \<open>
  \<open>path.dirname\<close> scans the path from its end: it passes over trailing separators, then
  over the last segment, and cuts the path before the separator it meets there. The
  first character is never the cutting point.
\<close>

definition path_dirname :: "string \<Rightarrow> string" where
  "path_dirname p =
     (if p = [] then ''.''
      else
        (let behind = dropWhile (\<lambda>c. c \<noteq> CHR ''/'') (dropWhile (\<lambda>c. c = CHR ''/'') (rev p))
         in if length behind \<le> 1 then (if is_absolute p then ''/'' else ''.'')
            else if is_absolute p \<and> length behind = 2 then ''//''
            else rev (tl behind)))"

fun mkdir_p :: "string list \<Rightarrow> string list \<Rightarrow> filesystem \<Rightarrow> error option \<times> filesystem" where
  "mkdir_p pre [] f = (None, f)"
| "mkdir_p pre (s # ss) f =
     (let k = pre @ [s]
      in case map_of f k of
           Some (File c) \<Rightarrow> (Some (FsError (if ss = [] then ''EEXIST'' else ''ENOTDIR'') k), f)
         | Some Dir \<Rightarrow> mkdir_p k ss f
         | None \<Rightarrow> mkdir_p k ss (AList.update k Dir f))"

text \<open>\<open>fs.open(dest, 'w')\<close>: the file is created, or truncated when it exists.\<close>

definition open_w :: "string list \<Rightarrow> filesystem \<Rightarrow> error option \<times> filesystem" where
  "open_w k f =
     (if dir_at f k then (Some (FsError ''EISDIR'' k), f)
      else if \<not> dir_at f (butlast k) then (Some (FsError ''ENOENT'' k), f)
      else (None, AList.update k (File (Blob [])) f))"

definition unlink_at :: "string list \<Rightarrow> filesystem \<Rightarrow> error option \<times> filesystem" where
  "unlink_at k f =
     (case map_of f k of
        Some (File c) \<Rightarrow> (None, AList.delete k f)
      | Some Dir \<Rightarrow> (Some (FsError ''EISDIR'' k), f)
      | None \<Rightarrow> (Some (FsError ''ENOENT'' k), f))"

definition lift_fs :: "(filesystem \<Rightarrow> error option \<times> filesystem) \<Rightarrow> unit io" where
  "lift_fs step w =
     (case step (fs w) of
        (None, f) \<Rightarrow> (Ok (), w\<lparr>fs := f\<rparr>)
      | (Some e, f) \<Rightarrow> (Throw e, w\<lparr>fs := f\<rparr>))"

definition fs_mkdir :: "env \<Rightarrow> string \<Rightarrow> unit io" where
  "fs_mkdir ev p = lift_fs (mkdir_p [] (fs_key ev p))"

definition fs_open_w :: "env \<Rightarrow> string \<Rightarrow> unit io" where
  "fs_open_w ev p = lift_fs (open_w (fs_key ev p))"

text \<open>Writing the whole content through a handle that is already open.\<close>

definition store :: "env \<Rightarrow> string \<Rightarrow> content \<Rightarrow> unit io" where
  "store ev p c w = (Ok (), w\<lparr>fs := AList.update (fs_key ev p) (File c) (fs w)\<rparr>)"

definition fs_access :: "env \<Rightarrow> string \<Rightarrow> unit io" where
  "fs_access ev p w =
     (if exists_at (fs w) (fs_key ev p) then (Ok (), w)
      else (Throw (FsError ''ENOENT'' (fs_key ev p)), w))"

definition fs_unlink :: "env \<Rightarrow> string \<Rightarrow> unit io" where
  "fs_unlink ev p = andThen (emit (EvUnlink p)) (\<lambda>_. lift_fs (unlink_at (fs_key ev p)))"

definition fs_chmod :: "env \<Rightarrow> string \<Rightarrow> unit io" where
  "fs_chmod ev p = fs_access ev p"

definition fs_readdir :: "env \<Rightarrow> string \<Rightarrow> string list io" where
  "fs_readdir ev p w =
     (let d = fs_key ev p
      in if dir_at (fs w) d
         then (Ok (map (\<lambda>e. last (fst e)) (filter (\<lambda>e. fst e \<noteq> [] \<and> butlast (fst e) = d) (fs w))), w)
         else (Throw (FsError (if exists_at (fs w) d then ''ENOTDIR'' else ''ENOENT'') d), w))"

definition fs_readFile :: "env \<Rightarrow> string \<Rightarrow> content io" where
  "fs_readFile ev p w =
     (case map_of (fs w) (fs_key ev p) of
        Some (File c) \<Rightarrow> (Ok c, w)
      | Some Dir \<Rightarrow> (Throw (FsError ''EISDIR'' (fs_key ev p)), w)
      | None \<Rightarrow> (Throw (FsError ''ENOENT'' (fs_key ev p)), w))"

definition fs_writeFile :: "env \<Rightarrow> string \<Rightarrow> content \<Rightarrow> unit io" where
  "fs_writeFile ev p c =
     andThen (emit (EvWriteFile p)) (\<lambda>_.
     andThen (fs_open_w ev p) (\<lambda>_. store ev p c))"

section \<open>index.js: constants\<close>

definition PIPER_DIR :: string where
  "PIPER_DIR = ''piper''"

definition MODELS_DIR :: string where
  "MODELS_DIR = path_join [PIPER_DIR, ''models'']"

definition MODEL_URL :: "env \<Rightarrow> string" where
  "MODEL_URL ev = ''https://alphacephei.com/vosk/models/'' @ vaskmodel ev @ ''.zip''"

definition ZIP_PATH :: "env \<Rightarrow> string" where
  "ZIP_PATH ev = ''./model/'' @ vaskmodel ev @ ''.zip''"

definition EXTRACT_PATH :: string where
  "EXTRACT_PATH = ''./model/''"

definition LANGUAGE_MAP :: "(string \<times> string) list" where
  "LANGUAGE_MAP =
     [(''de_DE'', ''German (Germany)''),
      (''en_US'', ''English (United States)''),
      (''en_GB'', ''English (United Kingdom)''),
      (''es_ES'', ''Spanish (Spain)''),
      (''fr_FR'', ''French (France)''),
      (''sv_SE'', ''Swedish (Sweden)''),
      (''nl_NL'', ''Dutch (Netherlands)''),
      (''da_DK'', ''Danish (Denmark)''),
      (''it_IT'', ''Italian (Italy)''),
      (''ru_RU'', ''Russian (Russia)''),
      (''pt_BR'', ''Portuguese (Brazil)''),
      (''pl_PL'', ''Polish (Poland)'')]"

section \<open>index.js: \<open>extractZip\<close>, \<open>downloadFile\<close>, \<open>fileExists\<close>, \<open>runCommand\<close>\<close>

text \<open>
  \<open>unzipper.Extract\<close> writes every file entry below the target directory, creating the
  directories on the way; it passes over directory entries and over entries whose path
  leaves the target directory. Extraction stops at the first failure and leaves what it
  has written.
\<close>

fun extract_entries :: "env \<Rightarrow> string \<Rightarrow> (string \<times> content option) list \<Rightarrow> unit io" where
  "extract_entries ev extractTo [] = ret ()"
| "extract_entries ev extractTo ((rel, None) # es) = extract_entries ev extractTo es"
| "extract_entries ev extractTo ((rel, Some c) # es) =
     (let target = path_join [extractTo, rel]
      in if take (length (fs_key ev extractTo)) (fs_key ev target) \<noteq> fs_key ev extractTo
         then extract_entries ev extractTo es
         else andThen (fs_mkdir ev (path_dirname target)) (\<lambda>_.
              andThen (fs_open_w ev target) (\<lambda>_.
              andThen (store ev target c) (\<lambda>_. extract_entries ev extractTo es))))"

definition extractZip :: "env \<Rightarrow> string \<Rightarrow> string \<Rightarrow> unit io" where
  "extractZip ev zipPath extractTo =
     andThen (emit (EvExtract zipPath extractTo)) (\<lambda>_.
     andThen (fs_readFile ev zipPath) (\<lambda>c.
       case c of
         Archive es \<Rightarrow> extract_entries ev extractTo es
       | _ \<Rightarrow> throw (ExtractError zipPath)))"

definition downloadFile :: "env \<Rightarrow> string \<Rightarrow> string \<Rightarrow> unit io" where
  "downloadFile ev url dest =
     andThen (fs_mkdir ev (path_dirname dest)) (\<lambda>_.
     andThen (fs_open_w ev dest) (\<lambda>_.
     andThen (emit (EvDownload url dest)) (\<lambda>_.
       case https_get ev url of
         RequestError msg \<Rightarrow> throw (DownloadError url msg)
       | BrokenTransfer partial msg \<Rightarrow>
           andThen (store ev dest partial) (\<lambda>_. throw (DownloadError url msg))
       | Response status body \<Rightarrow>
           if status = 404 then throw (NotFound404 url)
           else if status \<noteq> 200 then throw (BadStatus url status)
           else store ev dest body)))"

definition fileExists :: "env \<Rightarrow> string \<Rightarrow> bool io" where
  "fileExists ev filePath =
     try_catch (andThen (fs_access ev filePath) (\<lambda>_. ret True)) (\<lambda>_. ret False)"

text \<open>
  \<open>runCommand\<close> listens to \<open>close\<close> only. When the process cannot be started the child
  emits \<open>error\<close>, which nobody handles, and never emits \<open>close\<close>: the promise stays pending.
\<close>

definition runCommand :: "env \<Rightarrow> string \<Rightarrow> string list \<Rightarrow> (string \<times> string) io" where
  "runCommand ev cmd args =
     andThen (emit (EvSpawn cmd args [])) (\<lambda>_ w.
       case spawn_process ev cmd args [] (fs w) of
         (Exited code out err, f) \<Rightarrow>
           if code = Some 0 then (Ok (out, err), w\<lparr>fs := f\<rparr>)
           else (Throw (CommandFailed code (if err \<noteq> [] then err else out)), w\<lparr>fs := f\<rparr>)
       | (SpawnFailed msg, f) \<Rightarrow> (Hang, w\<lparr>fs := f\<rparr>))"

section \<open>tts.js: \<open>loadTtsConfigs\<close>\<close>

definition endsWith :: "string \<Rightarrow> string \<Rightarrow> bool" where
  "endsWith s ending =
     (length ending \<le> length s \<and> drop (length s - length ending) s = ending)"

fun load_files :: "env \<Rightarrow> string list \<Rightarrow> unit io" where
  "load_files ev [] = ret ()"
| "load_files ev (file # files) =
     (if endsWith file ''.json'' then
        (let providerName = take (length file - 5) file;
             configPath = path_join [''tts_configs'', file]
         in andThen (fs_readFile ev configPath) (\<lambda>configData.
            andThen
              (case configData of
                 Json v \<Rightarrow> (\<lambda>w. (Ok (), w\<lparr>ttsConfigs := AList.update providerName v (ttsConfigs w)\<rparr>))
               | _ \<Rightarrow> emit (EvLogError (SyntaxError file)))
              (\<lambda>_. load_files ev files)))
      else load_files ev files)"

definition loadTtsConfigs :: "env \<Rightarrow> unit io" where
  "loadTtsConfigs ev =
     try_catch
       (andThen (fs_mkdir ev ''tts_configs'') (\<lambda>_.
        andThen (fs_readdir ev ''tts_configs'') (\<lambda>files. load_files ev files)))
       (\<lambda>e. emit (EvLogError e))"

section \<open>stt.js: \<open>voskLoader\<close>\<close>

text \<open>The two copies of stt.js have the same \<open>voskLoader\<close> (lines 10--26 and 73--89).\<close>

definition MODEL_PATH :: "env \<Rightarrow> string" where
  "MODEL_PATH ev = ''./model/'' @ vaskmodel ev"

definition voskLoader :: "env \<Rightarrow> VoskModel io" where
  "voskLoader ev w =
     (case model w of
        Some m \<Rightarrow> (Ok m, w)
      | None \<Rightarrow>
          if \<not> exists_at (fs w) (fs_key ev (MODEL_PATH ev))
          then andThen (emit (EvLogError (ModelNotFound (MODEL_PATH ev)))) (\<lambda>_. process_exit 1) w
          else (case vosk_Model ev (fs w) (fs_key ev (MODEL_PATH ev)) of
                  Some msg \<Rightarrow> (Throw (VoskError msg), w)
                | None \<Rightarrow>
                    (Ok (VoskModel (MODEL_PATH ev)),
                     w\<lparr>model := Some (VoskModel (MODEL_PATH ev)),
                       trace := trace w @ [EvModelNew (MODEL_PATH ev)]\<rparr>)))"

section \<open>index.js: \<open>ensureVoskModelDownloaded\<close>\<close>

text \<open>
  The first \<open>try\<close> block (lines 264--273) returns from the function when it completes; its
  \<open>catch\<close> is empty, so any error thrown in it leads to the second block (lines 275--293).
\<close>

definition model_already_present :: "env \<Rightarrow> bool io" where
  "model_already_present ev =
     (let modelDir = path_join [EXTRACT_PATH, ''vosk-model-en-us-0.22'']
      in try_catch
           (andThen (fs_access ev modelDir) (\<lambda>_.
            andThen (voskLoader ev) (\<lambda>m.
            andThen (loadTtsConfigs ev) (\<lambda>_. ret True))))
           (\<lambda>_. ret False))"

definition ensureVoskModelDownloaded :: "env \<Rightarrow> unit io" where
  "ensureVoskModelDownloaded ev =
     andThen (model_already_present ev) (\<lambda>returned.
       if returned then ret ()
       else try_catch
              (andThen (downloadFile ev (MODEL_URL ev) (ZIP_PATH ev)) (\<lambda>_.
               andThen (extractZip ev (ZIP_PATH ev) EXTRACT_PATH) (\<lambda>_.
               andThen (fs_unlink ev (ZIP_PATH ev)) (\<lambda>_.
               andThen (voskLoader ev) (\<lambda>m. loadTtsConfigs ev)))))
              (\<lambda>err. emit (EvLogError err)))"

section \<open>index.js: \<open>setupPiper\<close>\<close>

definition portablePythonDir :: "env \<Rightarrow> string" where
  "portablePythonDir ev = path_resolve (cwd ev) [dirname ev, ''python-portable'']"

definition pythonExe :: "env \<Rightarrow> string" where
  "pythonExe ev =
     (if platform ev = ''win32'' then path_join [portablePythonDir ev, ''python.exe'']
      else path_join [portablePythonDir ev, ''bin'', ''python3''])"

text \<open>Lines 307--346: the portable Python is installed when its executable is missing.\<close>

definition install_python :: "env \<Rightarrow> unit io" where
  "install_python ev =
     andThen (fileExists ev (pythonExe ev)) (\<lambda>hasPortablePython.
       if \<not> hasPortablePython then
         (if platform ev = ''win32'' then
            (let minicondaUrl = ''https://repo.anaconda.com/miniconda/Miniconda3-latest-Windows-x86_64.exe'';
                 installerPath = path_join [dirname ev, ''miniconda_installer.exe'']
             in andThen (downloadFile ev minicondaUrl installerPath) (\<lambda>_.
                andThen (runCommand ev installerPath
                           [''/InstallationType=JustMe'', ''/AddToPath=0'', ''/RegisterPython=0'',
                            ''/S'', ''/D='' @ portablePythonDir ev]) (\<lambda>_.
                fs_unlink ev installerPath)))
          else if platform ev = ''linux'' \<or> platform ev = ''darwin'' then
            (let minicondaUrl =
                   (if platform ev = ''linux''
                    then ''https://repo.anaconda.com/miniconda/Miniconda3-latest-Linux-x86_64.sh''
                    else ''https://repo.anaconda.com/miniconda/Miniconda3-latest-MacOSX-x86_64.sh'');
                 shPath = path_join [dirname ev, ''miniconda.sh'']
             in andThen (downloadFile ev minicondaUrl shPath) (\<lambda>_.
                andThen (fs_chmod ev shPath) (\<lambda>_.
                andThen (runCommand ev ''bash'' [shPath, ''-b'', ''-p'', portablePythonDir ev]) (\<lambda>_.
                fs_unlink ev shPath))))
          else throw (UnsupportedPlatform (platform ev)))
       else ret ())"

text \<open>
  Lines 349--365. Both branches end with \<open>piperInstalled = true\<close>, so the test of line 362
  never fires.
\<close>

definition install_piper :: "env \<Rightarrow> unit io" where
  "install_piper ev =
     try_catch
       (andThen (runCommand ev (pythonExe ev) [''-m'', ''pip'', ''install'', ''--upgrade'', ''pip'']) (\<lambda>_.
        andThen (runCommand ev (pythonExe ev) [''-m'', ''pip'', ''show'', ''piper-tts'']) (\<lambda>_. ret ())))
       (\<lambda>_.
        andThen (runCommand ev (pythonExe ev) [''-m'', ''pip'', ''install'', ''--upgrade'', ''pip'']) (\<lambda>_.
        andThen (runCommand ev (pythonExe ev) [''-m'', ''pip'', ''install'', ''piper-tts'']) (\<lambda>_. ret ())))"

text \<open>Lines 371--383: the download loop over the catalog.\<close>

fun download_voices :: "env \<Rightarrow> VoiceModel list \<Rightarrow> unit io" where
  "download_voices ev [] = ret ()"
| "download_voices ev (m # ms) =
     (let onnxPath = path_join [MODELS_DIR, name m @ ''.onnx''];
          jsonPath = path_join [MODELS_DIR, name m @ ''.onnx.json'']
      in andThen (fileExists ev onnxPath) (\<lambda>hasOnnx.
         andThen (if \<not> hasOnnx then downloadFile ev (onnx m) onnxPath else ret ()) (\<lambda>_.
         andThen (fileExists ev jsonPath) (\<lambda>hasJson.
         andThen (if \<not> hasJson then downloadFile ev (json m) jsonPath else ret ()) (\<lambda>_.
         download_voices ev ms)))))"

text \<open>
  Lines 389--390. \<open>model.name.split('-')[1]\<close> is \<open>undefined\<close> for a name without a hyphen,
  and the call of \<open>split\<close> on it throws.
\<close>

definition derive_provider :: "string \<Rightarrow> error + string" where
  "derive_provider nm =
     (let langCode = hd (split_on CHR ''-'' nm)
      in case tl (split_on CHR ''-'' nm) of
           [] \<Rightarrow> Inl (TypeError ''split'')
         | second # _ \<Rightarrow> Inr (toLowerCase langCode @ ''_'' @ hd (split_on CHR ''-'' second)))"

text \<open>
  Line 394. \<open>LANGUAGE_MAP\<close> is an object literal, so a key that it does not own is looked
  up in \<open>Object.prototype\<close>. The methods found there are functions: they are truthy, and
  \<open>JSON.stringify\<close> leaves a property with such a value out of the object. The key
  \<open>__proto__\<close> yields \<open>Object.prototype\<close> itself, which is written as an empty object.
\<close>

definition object_prototype_methods :: "string list" where
  "object_prototype_methods =
     [''constructor'', ''__defineGetter__'', ''__defineSetter__'', ''hasOwnProperty'',
      ''__lookupGetter__'', ''__lookupSetter__'', ''isPrototypeOf'', ''propertyIsEnumerable'',
      ''toString'', ''valueOf'', ''toLocaleString'']"

definition language_entry :: "string \<Rightarrow> (string \<times> jvalue) list" where
  "language_entry langCode =
     (case map_of LANGUAGE_MAP langCode of
        Some l \<Rightarrow> [(''language'', JStr (if l \<noteq> [] then l else ''Unknown Language''))]
      | None \<Rightarrow>
          if langCode \<in> set object_prototype_methods then []
          else if langCode = ''__proto__'' then [(''language'', JObj [])]
          else [(''language'', JStr ''Unknown Language'')])"

definition voice_config :: "env \<Rightarrow> string \<Rightarrow> string \<Rightarrow> jvalue" where
  "voice_config ev nm provider =
     (let langCode = hd (split_on CHR ''-'' nm)
      in JObj
           ([(''provider'', JStr provider),
             (''voice'', JStr nm)]
            @ language_entry langCode
            @ [(''pythonPath'', JStr (pythonExe ev)),
               (''modelPath'', JStr (path_join [MODELS_DIR, nm @ ''.onnx''])),
               (''configPath'', JStr (path_join [MODELS_DIR, nm @ ''.onnx.json'']))]))"

text \<open>Lines 387--401: the loop that writes one configuration file per voice.\<close>

fun generate_configs :: "env \<Rightarrow> VoiceModel list \<Rightarrow> unit io" where
  "generate_configs ev [] = ret ()"
| "generate_configs ev (m # ms) =
     (let configPath = path_join [''tts_configs'', name m @ ''.json'']
      in case derive_provider (name m) of
           Inl e \<Rightarrow> throw e
         | Inr provider \<Rightarrow>
             andThen (fs_writeFile ev configPath (Json (voice_config ev (name m) provider))) (\<lambda>_.
             generate_configs ev ms))"

text \<open>Lines 299--368: the runtime, the engine and the directory of the voice models.\<close>

definition install_runtime :: "env \<Rightarrow> unit io" where
  "install_runtime ev =
     andThen (install_python ev) (\<lambda>_.
     andThen (install_piper ev) (\<lambda>_.
     fs_mkdir ev MODELS_DIR))"

text \<open>Lines 299--403: everything that precedes the call of \<open>ensureVoskModelDownloaded\<close>.\<close>

definition setup_voices :: "env \<Rightarrow> unit io" where
  "setup_voices ev =
     andThen (install_runtime ev) (\<lambda>_.
     andThen (download_voices ev (VOICE_MODELS ev)) (\<lambda>_.
     andThen (fs_mkdir ev ''tts_configs'') (\<lambda>_.
     generate_configs ev (VOICE_MODELS ev))))"

text \<open>
  The whole body stands in one \<open>try\<close> block; its \<open>catch\<close> (lines 405--410) reports the
  error and ends the process with status 1.
\<close>

definition setupPiper :: "env \<Rightarrow> unit io" where
  "setupPiper ev =
     try_catch
       (andThen (setup_voices ev) (\<lambda>_. ensureVoskModelDownloaded ev))
       (\<lambda>error.
        andThen (emit (EvLogError error)) (\<lambda>_. process_exit 1))"

section \<open>tts.js: \<open>generateTts\<close> and \<open>synthesizeWithPiper\<close>\<close>

text \<open>
  \<open>require\<close> of a JSON file, resolved against the directory of tts.js. A module that was
  loaded once is served from the cache.
\<close>

definition require_json :: "env \<Rightarrow> string \<Rightarrow> jvalue io" where
  "require_json ev p w =
     (let k = path_segments (path_resolve (dirname ev) [p])
      in case map_of (modules w) k of
           Some v \<Rightarrow> (Ok v, w)
         | None \<Rightarrow>
             (case map_of (fs w) k of
                Some (File (Json v)) \<Rightarrow> (Ok v, w\<lparr>modules := (k, v) # modules w\<rparr>)
              | Some (File c) \<Rightarrow> (Throw (SyntaxError p), w)
              | Some Dir \<Rightarrow> (Throw (ModuleNotFound p), w)
              | None \<Rightarrow> (Throw (ModuleNotFound p), w)))"

definition fresh_wav :: "env \<Rightarrow> string io" where
  "fresh_wav ev w = (Ok (''uploads/'' @ randomUUID ev (uuids w) @ ''.wav''), w\<lparr>uuids := Suc (uuids w)\<rparr>)"

text \<open>
  Lines 50--72: the engine is started with the Python of the configuration, the text and a
  newline go to its standard input, and the promise settles on \<open>close\<close> or \<open>error\<close>.
  \<open>spawn\<close> throws at once when the command is not a non-empty string.
\<close>

definition run_piper :: "env \<Rightarrow> jvalue option \<Rightarrow> string \<Rightarrow> string \<Rightarrow> utext \<Rightarrow> string option io" where
  "run_piper ev python modelPath outputFile text =
     (case python of
        Some (JStr py) \<Rightarrow>
          if py = [] then throw (TypeError ''file'')
          else
            (let args = [''-m'', ''piper'', ''--model'', modelPath, ''--output_file'', outputFile]
             in andThen (emit (EvSpawn py args (text @ [0xA]))) (\<lambda>_ w.
                  case spawn_process ev py args (text @ [0xA]) (fs w) of
                    (Exited code out err, f) \<Rightarrow>
                      if code = Some 0 then (Ok (Some outputFile), w\<lparr>fs := f\<rparr>)
                      else (Throw (PiperExited code), w\<lparr>fs := f\<rparr>)
                  | (SpawnFailed msg, f) \<Rightarrow> (Throw (SpawnError msg), w\<lparr>fs := f\<rparr>)))
      | _ \<Rightarrow> throw (TypeError ''file''))"

text \<open>
  \<open>generateTts\<close> is an \<open>async\<close> function: whatever it throws rejects its promise. The
  result \<open>None\<close> is the \<open>null\<close> of line 42. An argument that is left out is \<open>None\<close> and
  takes its default value.
\<close>

definition generateTts :: "env \<Rightarrow> utext \<Rightarrow> string option \<Rightarrow> string option \<Rightarrow> string option io" where
  "generateTts ev text provider_arg outputFile_arg =
     (let provider = (case provider_arg of None \<Rightarrow> ''en_US-amy-medium'' | Some p \<Rightarrow> p)
      in andThen (case outputFile_arg of None \<Rightarrow> fresh_wav ev | Some out \<Rightarrow> ret out) (\<lambda>outputFile.
         andThen (require_json ev (''./tts_configs/'' @ provider @ ''.json'')) (\<lambda>configstt.
           if \<not> truthy configstt then
             andThen (emit (EvLogError (NoTtsConfig provider))) (\<lambda>_. ret None)
           else
             (let voice = (if provider \<noteq> [] then provider else ''en_US-lessac-medium'');
                  configured = (case js_get configstt ''modelPath'' of
                                  Some v \<Rightarrow> if truthy v then v
                                            else JStr (''./piper/models/'' @ voice @ ''.onnx'')
                                | None \<Rightarrow> JStr (''./piper/models/'' @ voice @ ''.onnx''))
              in case configured of
                   JStr mp \<Rightarrow>
                     run_piper ev (js_get configstt ''pythonPath'')
                       (path_resolve (cwd ev) [mp]) outputFile text
                 | _ \<Rightarrow> throw (TypeError ''path'')))))"

text \<open>
  The executor handed to \<open>new Promise\<close> is an \<open>async\<close> function (line 82). The promise
  constructor ignores what the executor returns, so when the \<open>await\<close> of line 84 throws,
  neither \<open>resolve\<close> nor \<open>reject\<close> is called: the error ends as an unhandled rejection and
  the promise returned to the caller never settles.
\<close>

text \<open>
  Lines 75--77. The class of the regular expression holds the code points with the
  property \<open>Emoji_Presentation\<close>, those with the property \<open>Emoji\<close>, and the zero-width
  joiner U+200D; the text without the runs of that class is then trimmed.
\<close>

definition emoji_class :: "env \<Rightarrow> nat \<Rightarrow> bool" where
  "emoji_class ev c = (Emoji_Presentation ev c \<or> Emoji ev c \<or> c = 0x200D)"

definition stripEmojis :: "env \<Rightarrow> utext \<Rightarrow> utext" where
  "stripEmojis ev text = trim (replace_runs (emoji_class ev) text)"

definition or_default :: "string option \<Rightarrow> string \<Rightarrow> string" where
  "or_default v d = (case v of None \<Rightarrow> d | Some s \<Rightarrow> if s \<noteq> [] then s else d)"

definition synthesizeWithPiper :: "env \<Rightarrow> utext \<Rightarrow> string option \<Rightarrow> string option io" where
  "synthesizeWithPiper ev text voice =
     andThen (fresh_wav ev) (\<lambda>outputWav w.
       let cleanSentence = stripEmojis ev text
       in case generateTts ev cleanSentence (Some (or_default voice ''en_US-lessac-medium''))
                 (Some outputWav) w of
            (Ok audioFileAi, w') \<Rightarrow> (Ok audioFileAi, w')
          | (Throw e, w') \<Rightarrow> (Hang, w'\<lparr>trace := trace w' @ [EvUnhandledRejection e]\<rparr>)
          | (Halt n, w') \<Rightarrow> (Halt n, w')
          | (Hang, w') \<Rightarrow> (Hang, w'))"

section \<open>stt.js: \<open>transcribeWithVosk\<close>\<close>

definition stream_file :: "env \<Rightarrow> string \<Rightarrow> world \<Rightarrow> error + content" where
  "stream_file ev filePath w =
     (case map_of (fs w) (fs_key ev filePath) of
        Some (File c) \<Rightarrow> Inr c
      | Some Dir \<Rightarrow> Inl (FsError ''EISDIR'' (fs_key ev filePath))
      | None \<Rightarrow> Inl (FsError ''ENOENT'' (fs_key ev filePath)))"

text \<open>
  The copy at lines 28--61. Its executor is \<open>async\<close> as well: an error thrown in it (by
  \<open>voskLoader\<close>, by the inner promise that rejects on a stream error, or by the property
  read of line 57) leaves the outer promise pending, and so does a falsy text, for which
  line 57 has no \<open>else\<close>.
\<close>

definition transcribeWithVosk_l28 :: "env \<Rightarrow> string \<Rightarrow> transcript io" where
  "transcribeWithVosk_l28 ev filePath w =
     (case voskLoader ev w of
        (Ok m, w1) \<Rightarrow>
          (case stream_file ev filePath w1 of
             Inl err \<Rightarrow> (Hang, w1\<lparr>trace := trace w1 @ [EvUnhandledRejection err]\<rparr>)
           | Inr audio \<Rightarrow>
               (case vosk_finalResult ev audio of
                  FinalThrows msg \<Rightarrow> (Hang, w1)
                | Final ResultNull \<Rightarrow>
                    (Hang, w1\<lparr>trace := trace w1 @ [EvUnhandledRejection (TypeError ''alternatives'')]\<rparr>)
                | Final (ResultObj None) \<Rightarrow> (Hang, w1)
                | Final (ResultObj (Some [])) \<Rightarrow>
                    (Hang, w1\<lparr>trace := trace w1 @ [EvUnhandledRejection (TypeError ''text'')]\<rparr>)
                | Final (ResultObj (Some (a # _))) \<Rightarrow>
                    (case alt_text a of
                       None \<Rightarrow> (Hang, w1)
                     | Some t \<Rightarrow> if t \<noteq> [] then (Ok (Text t), w1) else (Hang, w1))))
      | (Throw e, w1) \<Rightarrow> (Hang, w1\<lparr>trace := trace w1 @ [EvUnhandledRejection e]\<rparr>)
      | (Halt n, w1) \<Rightarrow> (Halt n, w1)
      | (Hang, w1) \<Rightarrow> (Hang, w1))"

text \<open>
  The copy at lines 91--130: everything is wrapped in \<open>try\<close>/\<open>catch\<close> blocks that reject,
  the text is read through optional chaining, trimmed, and a falsy text resolves \<open>false\<close>.
\<close>

definition final_text :: "vosk_result \<Rightarrow> utext" where
  "final_text r =
     (case r of
        ResultNull \<Rightarrow> []
      | ResultObj None \<Rightarrow> []
      | ResultObj (Some []) \<Rightarrow> []
      | ResultObj (Some (a # _)) \<Rightarrow> (case alt_text a of None \<Rightarrow> [] | Some t \<Rightarrow> trim t))"

definition transcribeWithVosk_l91 :: "env \<Rightarrow> string \<Rightarrow> transcript io" where
  "transcribeWithVosk_l91 ev filePath w =
     (case voskLoader ev w of
        (Ok m, w1) \<Rightarrow>
          (case stream_file ev filePath w1 of
             Inl err \<Rightarrow> (Throw err, w1)
           | Inr audio \<Rightarrow>
               (case vosk_finalResult ev audio of
                  FinalThrows msg \<Rightarrow> (Throw (VoskError msg), w1)
                | Final r \<Rightarrow>
                    (let text = final_text r
                     in if text \<noteq> [] then (Ok (Text text), w1) else (Ok NoSpeech, w1))))
      | (Throw e, w1) \<Rightarrow> (Throw e, w1)
      | (Halt n, w1) \<Rightarrow> (Halt n, w1)
      | (Hang, w1) \<Rightarrow> (Hang, w1))"

section \<open>Sample inputs\<close>

text \<open>
  A Linux host with the scripts in \<open>/app\<close>, a catalog of three voices, spawned processes
  that exit with status 0, a recognition library that loads any model and hears nothing,
  a network on which every URL answers 200, and an engine with the data of Unicode 15.0.
\<close>

definition voice_lessac :: VoiceModel where
  "voice_lessac =
     \<lparr>name = ''en_US-lessac-medium'',
      onnx = ''https://voices.example/1.onnx'', json = ''https://voices.example/1.json''\<rparr>"

definition voice_alan :: VoiceModel where
  "voice_alan =
     \<lparr>name = ''en_GB-alan-medium'',
      onnx = ''https://voices.example/2.onnx'', json = ''https://voices.example/2.json''\<rparr>"

definition voice_thorsten :: VoiceModel where
  "voice_thorsten =
     \<lparr>name = ''de_DE-thorsten-medium'',
      onnx = ''https://voices.example/3.onnx'', json = ''https://voices.example/3.json''\<rparr>"

definition sample_catalog :: "VoiceModel list" where
  "sample_catalog = [voice_lessac, voice_alan, voice_thorsten]"

definition sample_network :: "string \<Rightarrow> response" where
  "sample_network url =
     (if url = ''https://alphacephei.com/vosk/models/vosk-model-en-us-0.22.zip''
      then Response 200 (Archive [(''vosk-model-en-us-0.22/README'', Some (Blob ''readme''))])
      else if url = ''https://alphacephei.com/vosk/models/vosk-model-small-en-us-0.15.zip''
      then Response 200 (Archive [(''vosk-model-small-en-us-0.15/README'', Some (Blob ''readme''))])
      else Response 200 (Blob ''data''))"

definition sample_env :: env where
  "sample_env =
     \<lparr>platform = ''linux'', dirname = ''/app'', cwd = ''/app'',
      vaskmodel = ''vosk-model-en-us-0.22'',
      VOICE_MODELS = sample_catalog,
      https_get = sample_network,
      spawn_process = (\<lambda>cmd args input f. (Exited (Some 0) [] [], f)),
      vosk_Model = (\<lambda>f k. None),
      vosk_finalResult = (\<lambda>audio. Final (ResultObj (Some [Alternative (Some [])]))),
      randomUUID = (\<lambda>n. replicate (Suc n) CHR ''u''),
      Emoji = unicode15_Emoji,
      Emoji_Presentation = unicode15_Emoji_Presentation\<rparr>"

text \<open>The process at its start, with the portable Python already in place.\<close>

definition boot_world :: world where
  "boot_world =
     \<lparr>fs = [([''app''], Dir),
            ([''app'', ''python-portable''], Dir),
            ([''app'', ''python-portable'', ''bin''], Dir),
            ([''app'', ''python-portable'', ''bin'', ''python3''], File (Blob ''python''))],
      model = None, ttsConfigs = [], modules = [], uuids = 0, trace = []\<rparr>"

text \<open>The second voice's model URL answers 404.\<close>

definition env_voice2_404 :: env where
  "env_voice2_404 =
     sample_env\<lparr>https_get :=
       (\<lambda>url. if url = ''https://voices.example/2.onnx'' then Response 404 (Blob [])
              else sample_network url)\<rparr>"

text \<open>The archive of the recognition model answers 404.\<close>

definition env_archive_404 :: env where
  "env_archive_404 =
     sample_env\<lparr>https_get :=
       (\<lambda>url. if url = ''https://alphacephei.com/vosk/models/vosk-model-en-us-0.22.zip''
              then Response 404 (Blob [])
              else sample_network url)\<rparr>"

text \<open>The configuration names another recognition model.\<close>

definition env_small_model :: env where
  "env_small_model = sample_env\<lparr>vaskmodel := ''vosk-model-small-en-us-0.15''\<rparr>"

text \<open>The engine exits with status 1.\<close>

definition env_engine_exit1 :: env where
  "env_engine_exit1 =
     sample_env\<lparr>spawn_process := (\<lambda>cmd args input f. (Exited (Some 1) [] [], f))\<rparr>"

text \<open>
  A process that serves requests: the configuration of \<open>en_US-lessac-medium\<close> is
  persisted, the recognition model is extracted and loaded, and a silent recording waits
  in \<open>uploads\<close>.
\<close>

definition serving_world :: world where
  "serving_world =
     \<lparr>fs = [([''app''], Dir),
            ([''app'', ''tts_configs''], Dir),
            ([''app'', ''tts_configs'', ''en_US-lessac-medium.json''],
               File (Json (voice_config sample_env ''en_US-lessac-medium'' ''en_us_lessac''))),
            ([''app'', ''model''], Dir),
            ([''app'', ''model'', ''vosk-model-en-us-0.22''], Dir),
            ([''app'', ''uploads''], Dir),
            ([''app'', ''uploads'', ''silence.wav''], File (Blob ''RIFF''))],
      model = Some (VoskModel ''./model/vosk-model-en-us-0.22''),
      ttsConfigs = [], modules = [], uuids = 0, trace = []\<rparr>"

text \<open>
  The same process before the first use of the recognition model, and after the first
  call of \<open>voskLoader\<close> in it.
\<close>

definition unloaded_world :: world where
  "unloaded_world = serving_world\<lparr>model := None\<rparr>"

definition loaded_world :: world where
  "loaded_world =
     unloaded_world\<lparr>model := Some (VoskModel (MODEL_PATH sample_env)),
                    trace := trace unloaded_world @ [EvModelNew (MODEL_PATH sample_env)]\<rparr>"

text \<open>The texts \<open>hi\<close>, \<open>hello\<close>, and \<open>hi\<close>, a grinning face (U+1F600), \<open>there\<close>.\<close>

definition text_hi :: utext where
  "text_hi = [0x68, 0x69]"

definition text_hello :: utext where
  "text_hello = [0x68, 0x65, 0x6C, 0x6C, 0x6F]"

definition text_hi_emoji_there :: utext where
  "text_hi_emoji_there = [0x68, 0x69, 0x20, 0x1F600, 0x20, 0x74, 0x68, 0x65, 0x72, 0x65]"

text \<open>
  States of the run in which the second voice's model URL answers 404: after the runtime
  is in place, after the first voice is downloaded, and at the failure of the second.
\<close>

definition world_runtime_ready :: world where
  "world_runtime_ready = snd (install_runtime env_voice2_404 boot_world)"

definition world_voice1_done :: world where
  "world_voice1_done = snd (download_voices env_voice2_404 [voice_lessac] world_runtime_ready)"

definition world_voice2_failed :: world where
  "world_voice2_failed = snd (download_voices env_voice2_404 [voice_alan] world_voice1_done)"

text \<open>
  States of the run in which the archive of the recognition model answers 404: after the
  voices are set up, and at the failure of the archive download.
\<close>

definition world_voices_ready :: world where
  "world_voices_ready = snd (setup_voices env_archive_404 boot_world)"

definition world_archive_failed :: world where
  "world_archive_failed =
     snd (downloadFile env_archive_404 (MODEL_URL env_archive_404) (ZIP_PATH env_archive_404)
            world_voices_ready)"

section \<open>Notions used in the statements\<close>

text \<open>A property of the state that a call never destroys, however the call ends.\<close>

definition preserves :: "(world \<Rightarrow> bool) \<Rightarrow> 'a io \<Rightarrow> bool" where
  "preserves P m = (\<forall>w. P w \<longrightarrow> P (snd (m w)))"

text \<open>
  A property of the state is \<open>Q\<close>-framed when it survives every change of the file system,
  of \<open>ttsConfigs\<close>, of the module cache and of the UUID counter, and every event outside
  \<open>Q\<close> that is added to the trace. Only the cached model and events of kind \<open>Q\<close> can
  matter to such a property.
\<close>

definition framed :: "(event \<Rightarrow> bool) \<Rightarrow> (world \<Rightarrow> bool) \<Rightarrow> bool" where
  "framed Q P =
     (\<forall>w. P w \<longrightarrow>
        (\<forall>f. P (w\<lparr>fs := f\<rparr>)) \<and>
        (\<forall>c. P (w\<lparr>ttsConfigs := c\<rparr>)) \<and>
        (\<forall>m. P (w\<lparr>modules := m\<rparr>)) \<and>
        (\<forall>n. P (w\<lparr>uuids := n\<rparr>)) \<and>
        (\<forall>e. \<not> Q e \<longrightarrow> P (w\<lparr>trace := trace w @ [e]\<rparr>)))"

text \<open>Kinds of effects in the trace.\<close>

fun is_write :: "event \<Rightarrow> bool" where
  "is_write (EvWriteFile p) = True"
| "is_write _ = False"

fun is_transfer :: "event \<Rightarrow> bool" where
  "is_transfer (EvDownload url dest) = True"
| "is_transfer (EvExtract archive target) = True"
| "is_transfer (EvUnlink p) = True"
| "is_transfer _ = False"

fun is_spawn :: "event \<Rightarrow> bool" where
  "is_spawn (EvSpawn cmd args input) = True"
| "is_spawn _ = False"

fun is_model_new :: "event \<Rightarrow> bool" where
  "is_model_new (EvModelNew p) = True"
| "is_model_new _ = False"

definition no_event :: "event \<Rightarrow> bool" where
  "no_event e = False"

text \<open>
  \<open>n\<close> calls of \<open>voskLoader\<close> one after the other; a call that ends the process ends the
  sequence.
\<close>

fun load_calls :: "env \<Rightarrow> nat \<Rightarrow> world \<Rightarrow> VoskModel res list \<times> world" where
  "load_calls ev 0 w = ([], w)"
| "load_calls ev (Suc n) w =
     (case voskLoader ev w of
        (Halt c, w') \<Rightarrow> ([Halt c], w')
      | (r, w') \<Rightarrow> (case load_calls ev n w' of (rs, w'') \<Rightarrow> (r # rs, w'')))"

text \<open>A call that always returns or throws: it neither ends the process nor stays pending.\<close>

definition settles :: "'a io \<Rightarrow> bool" where
  "settles m = (\<forall>w. case fst (m w) of Ok x \<Rightarrow> True | Throw e \<Rightarrow> True | Halt n \<Rightarrow> False | Hang \<Rightarrow> False)"


section \<open>Sequencing and error handling\<close>

lemma andThen_Ok: "m w = (Ok x, w') \<Longrightarrow> andThen m f w = f x w'"
  by (simp add: andThen_def)

lemma andThen_Throw: "m w = (Throw e, w') \<Longrightarrow> andThen m f w = (Throw e, w')"
  by (simp add: andThen_def)

lemma andThen_ret: "andThen (ret x) f = f x"
  by (rule ext) (simp add: andThen_def ret_def)

lemma andThen_assoc: "andThen (andThen m f) g = andThen m (\<lambda>x. andThen (f x) g)"
  by (rule ext) (simp add: andThen_def split: prod.splits res.splits)

lemma try_catch_Throw: "m w = (Throw e, w') \<Longrightarrow> try_catch m h w = h e w'"
  by (simp add: try_catch_def)

lemma try_catch_Ok: "m w = (Ok x, w') \<Longrightarrow> try_catch m h w = (Ok x, w')"
  by (simp add: try_catch_def)

lemma andThen_OkE:
  assumes "andThen m f w = (Ok y, w')"
  obtains x w1 where "m w = (Ok x, w1)" and "f x w1 = (Ok y, w')"
  using assms by (auto simp: andThen_def split: prod.splits res.splits)

section \<open>Properties that calls preserve\<close>

lemma preservesI: "(\<And>w. P w \<Longrightarrow> P (snd (m w))) \<Longrightarrow> preserves P m"
  by (simp add: preserves_def)

lemma preservesD: "preserves P m \<Longrightarrow> P w \<Longrightarrow> m w = (r, w') \<Longrightarrow> P w'"
  by (auto simp: preserves_def)

lemma preserves_ret: "preserves P (ret x)"
  by (simp add: preserves_def ret_def)

lemma preserves_throw: "preserves P (throw e)"
  by (simp add: preserves_def throw_def)

lemma preserves_exit: "preserves P (process_exit n)"
  by (simp add: preserves_def process_exit_def)

lemma preserves_andThen:
  assumes "preserves P m" and "\<And>x. preserves P (f x)"
  shows "preserves P (andThen m f)"
proof (rule preservesI)
  fix w assume "P w"
  obtain r w' where mw: "m w = (r, w')" by (cases "m w")
  have "P w'" using assms(1) \<open>P w\<close> mw by (rule preservesD)
  then show "P (snd (andThen m f w))"
    using assms(2) mw by (cases r) (auto simp: andThen_def preserves_def)
qed

lemma preserves_try_catch:
  assumes "preserves P m" and "\<And>e. preserves P (h e)"
  shows "preserves P (try_catch m h)"
proof (rule preservesI)
  fix w assume "P w"
  obtain r w' where mw: "m w = (r, w')" by (cases "m w")
  have "P w'" using assms(1) \<open>P w\<close> mw by (rule preservesD)
  then show "P (snd (try_catch m h w))"
    using assms(2) mw by (cases r) (auto simp: try_catch_def preserves_def)
qed

lemma preserves_if: "preserves P a \<Longrightarrow> preserves P b \<Longrightarrow> preserves P (if c then a else b)"
  by simp

lemma framed_model: "framed Q (\<lambda>w. model w = x)"
  by (simp add: framed_def)

lemma framed_events: "framed Q (\<lambda>w. filter Q (trace w) = evs)"
  by (simp add: framed_def)

lemma frame_emit: "framed Q P \<Longrightarrow> \<not> Q e \<Longrightarrow> preserves P (emit e)"
  by (simp add: framed_def preserves_def emit_def)

lemma frame_lift_fs: "framed Q P \<Longrightarrow> preserves P (lift_fs step)"
  by (auto simp: framed_def preserves_def lift_fs_def split: prod.splits option.splits)

lemma frame_store: "framed Q P \<Longrightarrow> preserves P (store ev p c)"
  by (simp add: framed_def preserves_def store_def)

lemma frame_fs_access: "preserves P (fs_access ev p)"
  by (simp add: preserves_def fs_access_def)

lemma frame_fs_readdir: "preserves P (fs_readdir ev p)"
  by (simp add: preserves_def fs_readdir_def Let_def)

lemma frame_fs_readFile: "preserves P (fs_readFile ev p)"
  by (simp add: preserves_def fs_readFile_def split: option.splits node.splits)

lemma frame_fileExists: "preserves P (fileExists ev p)"
  unfolding fileExists_def
  by (intro preserves_try_catch preserves_andThen frame_fs_access preserves_ret)

lemma frame_fs_mkdir: "framed Q P \<Longrightarrow> preserves P (fs_mkdir ev p)"
  by (simp add: fs_mkdir_def frame_lift_fs)

lemma frame_fs_open_w: "framed Q P \<Longrightarrow> preserves P (fs_open_w ev p)"
  by (simp add: fs_open_w_def frame_lift_fs)

lemma frame_fs_unlink: "framed Q P \<Longrightarrow> \<not> Q (EvUnlink p) \<Longrightarrow> preserves P (fs_unlink ev p)"
  unfolding fs_unlink_def
  by (intro preserves_andThen frame_emit frame_lift_fs)

lemma frame_fs_writeFile:
  "framed Q P \<Longrightarrow> \<not> Q (EvWriteFile p) \<Longrightarrow> preserves P (fs_writeFile ev p c)"
  unfolding fs_writeFile_def
  by (intro preserves_andThen frame_emit frame_fs_open_w frame_store)

lemma frame_runCommand:
  assumes "framed Q P" and "\<not> Q (EvSpawn cmd args [])"
  shows "preserves P (runCommand ev cmd args)"
proof -
  have "preserves P (\<lambda>w. case spawn_process ev cmd args [] (fs w) of
            (Exited code out err, f) \<Rightarrow>
              if code = Some 0 then (Ok (out, err), w\<lparr>fs := f\<rparr>)
              else (Throw (CommandFailed code (if err \<noteq> [] then err else out)), w\<lparr>fs := f\<rparr>)
          | (SpawnFailed msg, f) \<Rightarrow> (Hang, w\<lparr>fs := f\<rparr>))"
    using assms(1)
    by (auto simp: framed_def preserves_def split: prod.splits proc_result.splits)
  then show ?thesis
    unfolding runCommand_def
    by (intro preserves_andThen frame_emit [OF assms])
qed

lemma frame_downloadFile:
  assumes "framed Q P" and "\<not> Q (EvDownload url dest)"
  shows "preserves P (downloadFile ev url dest)"
  unfolding downloadFile_def
  by (intro preserves_andThen frame_emit [OF assms] frame_fs_mkdir [OF assms(1)]
        frame_fs_open_w [OF assms(1)])
     (auto split: response.splits
        intro!: preserves_andThen preserves_throw frame_store [OF assms(1)])

lemma frame_extract_entries:
  assumes "framed Q P"
  shows "preserves P (extract_entries ev dir es)"
proof (induction ev dir es rule: extract_entries.induct)
  case (1 ev extractTo)
  show ?case by (simp add: preserves_ret)
next
  case (2 ev extractTo rel es)
  then show ?case by simp
next
  case (3 ev extractTo rel c es)
  then show ?case
    by (auto simp: Let_def
          intro!: preserves_andThen frame_fs_mkdir [OF assms] frame_fs_open_w [OF assms]
            frame_store [OF assms])
qed

lemma frame_extractZip:
  assumes "framed Q P" and "\<not> Q (EvExtract zp dir)"
  shows "preserves P (extractZip ev zp dir)"
  unfolding extractZip_def
  by (intro preserves_andThen frame_emit [OF assms] frame_fs_readFile)
     (auto split: content.splits intro!: preserves_throw frame_extract_entries [OF assms(1)])

lemma frame_load_files:
  assumes "framed Q P" and "\<And>e. \<not> Q (EvLogError e)"
  shows "preserves P (load_files ev files)"
proof (induction files)
  case Nil
  show ?case by (simp add: preserves_ret)
next
  case (Cons fl fls)
  have upd: "preserves P
               (case c of
                  Json v \<Rightarrow> (\<lambda>w. (Ok (), w\<lparr>ttsConfigs := AList.update k v (ttsConfigs w)\<rparr>))
                | _ \<Rightarrow> emit (EvLogError (SyntaxError fl)))" for c k
  proof (cases c)
    case (Json v)
    then show ?thesis using assms(1) by (simp add: framed_def preserves_def)
  qed (simp_all add: frame_emit [OF assms(1)] assms(2))
  show ?case
    using Cons.IH
    by (auto simp: Let_def intro!: preserves_andThen frame_fs_readFile upd)
qed

lemma frame_loadTtsConfigs:
  assumes "framed Q P" and "\<And>e. \<not> Q (EvLogError e)"
  shows "preserves P (loadTtsConfigs ev)"
  unfolding loadTtsConfigs_def
  by (intro preserves_try_catch preserves_andThen frame_fs_mkdir [OF assms(1)] frame_fs_readdir
        frame_load_files [OF assms] frame_emit [OF assms(1)] assms(2))

lemma frame_install_python:
  assumes "framed Q P" and "\<And>e. is_transfer e \<Longrightarrow> \<not> Q e" and "\<And>e. is_spawn e \<Longrightarrow> \<not> Q e"
  shows "preserves P (install_python ev)"
proof -
  have dl: "preserves P (downloadFile ev url dest)" for url dest
    using assms(1,2) by (simp add: frame_downloadFile)
  have rm: "preserves P (fs_unlink ev p)" for p
    using assms(1,2) by (simp add: frame_fs_unlink)
  have run: "preserves P (runCommand ev cmd args)" for cmd args
    using assms(1,3) by (simp add: frame_runCommand)
  show ?thesis
    unfolding install_python_def Let_def
    by (intro preserves_andThen frame_fileExists)
       (auto intro!: preserves_andThen preserves_throw preserves_ret dl rm run frame_fs_access
          simp: fs_chmod_def)
qed

lemma frame_install_piper:
  assumes "framed Q P" and "\<And>e. is_spawn e \<Longrightarrow> \<not> Q e"
  shows "preserves P (install_piper ev)"
proof -
  have run: "preserves P (runCommand ev cmd args)" for cmd args
    using assms by (simp add: frame_runCommand)
  show ?thesis
    unfolding install_piper_def
    by (intro preserves_try_catch preserves_andThen preserves_ret run)
qed

lemma frame_install_runtime:
  assumes "framed Q P" and "\<And>e. is_transfer e \<Longrightarrow> \<not> Q e" and "\<And>e. is_spawn e \<Longrightarrow> \<not> Q e"
  shows "preserves P (install_runtime ev)"
  unfolding install_runtime_def
  by (intro preserves_andThen frame_install_python [OF assms] frame_install_piper [OF assms(1,3)]
        frame_fs_mkdir [OF assms(1)])

lemma frame_download_voices:
  assumes "framed Q P" and "\<And>e. is_transfer e \<Longrightarrow> \<not> Q e"
  shows "preserves P (download_voices ev ms)"
proof (induction ms)
  case Nil
  show ?case by (simp add: preserves_ret)
next
  case (Cons m ms)
  have dl: "preserves P (downloadFile ev url dest)" for url dest
    using assms by (simp add: frame_downloadFile)
  show ?case
    unfolding download_voices.simps Let_def
    by (intro preserves_andThen frame_fileExists preserves_if dl preserves_ret Cons.IH)
qed

lemma frame_generate_configs:
  assumes "framed Q P" and "\<And>e. is_write e \<Longrightarrow> \<not> Q e"
  shows "preserves P (generate_configs ev ms)"
proof (induction ms)
  case Nil
  show ?case by (simp add: preserves_ret)
next
  case (Cons m ms)
  have wr: "preserves P (fs_writeFile ev p c)" for p c
    using assms by (simp add: frame_fs_writeFile)
  from Cons show ?case
    by (auto simp: Let_def split: sum.splits intro!: preserves_andThen preserves_throw wr)
qed

lemma frame_require_json: "framed Q P \<Longrightarrow> preserves P (require_json ev p)"
  by (auto simp: framed_def preserves_def require_json_def Let_def
        split: option.splits node.splits content.splits)

lemma frame_fresh_wav: "framed Q P \<Longrightarrow> preserves P (fresh_wav ev)"
  by (simp add: framed_def preserves_def fresh_wav_def)

lemma frame_run_piper:
  assumes "framed Q P" and "\<And>e. is_spawn e \<Longrightarrow> \<not> Q e"
  shows "preserves P (run_piper ev py mp out t)"
proof -
  have sp: "preserves P (\<lambda>w. case spawn_process ev c a i (fs w) of
            (Exited code out' err, f) \<Rightarrow>
              if code = Some 0 then (Ok (Some out), w\<lparr>fs := f\<rparr>)
              else (Throw (PiperExited code), w\<lparr>fs := f\<rparr>)
          | (SpawnFailed msg, f) \<Rightarrow> (Throw (SpawnError msg), w\<lparr>fs := f\<rparr>))" for c a i
    using assms(1)
    by (auto simp: framed_def preserves_def split: prod.splits proc_result.splits)
  have em: "preserves P (emit (EvSpawn c a i))" for c a i
    using assms by (simp add: frame_emit)
  show ?thesis
    unfolding run_piper_def
    by (auto split: option.splits jvalue.splits simp: Let_def
          intro!: preserves_throw preserves_andThen em sp)
qed

lemma frame_generateTts:
  assumes "framed Q P" and "\<And>e. is_spawn e \<Longrightarrow> \<not> Q e" and "\<And>e. \<not> Q (EvLogError e)"
  shows "preserves P (generateTts ev t pr out)"
proof -
  have em: "preserves P (emit (EvLogError e))" for e
    using assms(1,3) by (simp add: frame_emit)
  show ?thesis
    unfolding generateTts_def Let_def
    by (intro preserves_andThen frame_require_json [OF assms(1)])
       (auto split: option.splits jvalue.splits
          intro!: preserves_andThen preserves_ret preserves_throw frame_fresh_wav [OF assms(1)]
            em frame_run_piper [OF assms(1,2)])
qed

lemma frame_synthesizeWithPiper:
  assumes "framed Q P" and "\<And>e. is_spawn e \<Longrightarrow> \<not> Q e" and "\<And>e. \<not> Q (EvLogError e)"
      and "\<And>e. \<not> Q (EvUnhandledRejection e)"
  shows "preserves P (synthesizeWithPiper ev t v)"
proof -
  have "preserves P
          (\<lambda>w. case generateTts ev a b c w of
                  (Ok r, w') \<Rightarrow> (Ok r, w')
                | (Throw e, w') \<Rightarrow> (Hang, w'\<lparr>trace := trace w' @ [EvUnhandledRejection e]\<rparr>)
                | (Halt n, w') \<Rightarrow> (Halt n, w')
                | (Hang, w') \<Rightarrow> (Hang, w'))" for a b c
    using frame_generateTts [OF assms(1,2,3), of ev a b c] assms(1) assms(4)
    by (auto simp: preserves_def framed_def split: prod.splits res.splits)
  then show ?thesis
    unfolding synthesizeWithPiper_def Let_def
    by (intro preserves_andThen frame_fresh_wav [OF assms(1)])
qed

section \<open>Strings\<close>

lemma filter_dropWhile_same: "filter (\<lambda>c. \<not> P c) (dropWhile P xs) = filter (\<lambda>c. \<not> P c) xs"
  by (induction xs) auto

lemma replace_runs_filter: "replace_runs cls s = filter (\<lambda>c. \<not> cls c) s"
  by (induction cls s rule: replace_runs.induct) (auto simp: filter_dropWhile_same)

lemma list_all_takeWhile: "list_all P (takeWhile P xs)"
  by (induction xs) auto

lemma trim_decomposition:
  "\<exists>pre suf. s = pre @ trim s @ suf \<and> list_all is_js_whitespace pre \<and> list_all is_js_whitespace suf"
proof -
  let ?ws = is_js_whitespace
  let ?mid = "dropWhile ?ws s"
  have "trim s @ rev (takeWhile ?ws (rev ?mid))
        = rev (takeWhile ?ws (rev ?mid) @ dropWhile ?ws (rev ?mid))"
    by (simp only: trim_def rev_append)
  also have "\<dots> = ?mid"
    by (simp only: takeWhile_dropWhile_id rev_rev_ident)
  finally have mid: "trim s @ rev (takeWhile ?ws (rev ?mid)) = ?mid" .
  have "takeWhile ?ws s @ ?mid = s"
    by (rule takeWhile_dropWhile_id)
  then have "s = takeWhile ?ws s @ trim s @ rev (takeWhile ?ws (rev ?mid))"
    by (simp only: mid)
  moreover have "list_all ?ws (takeWhile ?ws s)"
    by (rule list_all_takeWhile)
  moreover have "list_all ?ws (rev (takeWhile ?ws (rev ?mid)))"
    using list_all_takeWhile [of ?ws "rev ?mid"] by (simp add: list_all_iff)
  ultimately show ?thesis by blast
qed


lemma split_on_not_Nil: "split_on c s \<noteq> []"
  by (induction s) (auto split: list.splits)

lemma split_on_without: "c \<notin> set s \<Longrightarrow> split_on c s = [s]"
  by (induction s) auto

lemma split_on_at: "c \<notin> set a \<Longrightarrow> split_on c (a @ c # b) = a # split_on c b"
  by (induction a) auto

lemma toLowerCase_append: "toLowerCase (a @ b) = toLowerCase a @ toLowerCase b"
  by (simp add: toLowerCase_def)

lemma derive_provider_shape:
  assumes "CHR ''-'' \<notin> set lang" and "CHR ''-'' \<notin> set region" and "CHR ''-'' \<notin> set voice"
  shows "derive_provider (lang @ ''_'' @ region @ ''-'' @ voice @ ''-'' @ quality)
         = Inr (toLowerCase (lang @ ''_'' @ region) @ ''_'' @ voice)"
proof -
  let ?code = "lang @ ''_'' @ region"
  have code: "CHR ''-'' \<notin> set ?code"
    using assms by simp
  have "split_on CHR ''-'' (?code @ CHR ''-'' # (voice @ CHR ''-'' # quality))
        = ?code # split_on CHR ''-'' (voice @ CHR ''-'' # quality)"
    by (rule split_on_at [OF code])
  also have "split_on CHR ''-'' (voice @ CHR ''-'' # quality) = voice # split_on CHR ''-'' quality"
    by (rule split_on_at [OF assms(3)])
  finally have sp: "split_on CHR ''-'' (lang @ ''_'' @ region @ ''-'' @ voice @ ''-'' @ quality)
             = ?code # voice # split_on CHR ''-'' quality"
    by simp
  have "hd (split_on CHR ''-'' voice) = voice"
    using assms(3) by (simp add: split_on_without)
  then show ?thesis
    unfolding derive_provider_def Let_def sp by simp
qed


section \<open>Files\<close>

lemma map_of_update: "map_of (AList.update k v al) k = Some v"
  by (simp add: update_conv')

lemma store_stored: "store ev p c w = (r, w') \<Longrightarrow> map_of (fs w') (fs_key ev p) = Some (File c)"
  by (auto simp: store_def map_of_update)

lemma fs_writeFile_stored:
  assumes "fs_writeFile ev p c w = (Ok (), w')"
  shows "map_of (fs w') (fs_key ev p) = Some (File c)"
proof -
  from assms obtain x w1 where
    "andThen (fs_open_w ev p) (\<lambda>_. store ev p c) w1 = (Ok (), w')"
    unfolding fs_writeFile_def by (rule andThen_OkE)
  then obtain y w2 where "store ev p c w2 = (Ok (), w')"
    by (rule andThen_OkE)
  then show ?thesis by (rule store_stored)
qed

lemma generate_configs_one:
  assumes "generate_configs ev [m] w = (Ok (), w')"
      and "derive_provider (name m) = Inr p"
  shows "map_of (fs w') (fs_key ev (path_join [''tts_configs'', name m @ ''.json'']))
         = Some (File (Json (voice_config ev (name m) p)))"
proof -
  have "andThen (fs_writeFile ev (path_join [''tts_configs'', name m @ ''.json''])
          (Json (voice_config ev (name m) p))) (\<lambda>_. ret ()) w = (Ok (), w')"
    using assms by (simp add: Let_def)
  then obtain x w1 where
    wr: "fs_writeFile ev (path_join [''tts_configs'', name m @ ''.json''])
          (Json (voice_config ev (name m) p)) w = (Ok x, w1)"
    and "ret () w1 = (Ok (), w')"
    by (rule andThen_OkE)
  then have "w1 = w'" by (simp add: ret_def)
  with wr show ?thesis by (simp add: fs_writeFile_stored)
qed

lemma voice_config_provider: "js_get (voice_config ev nm p) ''provider'' = Some (JStr p)"
  by (simp add: voice_config_def Let_def)



section \<open>The cached recognition model\<close>

lemma voskLoader_cached: "model w = Some h \<Longrightarrow> voskLoader ev w = (Ok h, w)"
  by (simp add: voskLoader_def)

lemma voskLoader_Ok_model: "voskLoader ev w = (Ok h, w') \<Longrightarrow> model w' = Some h"
  by (auto simp: voskLoader_def andThen_def emit_def process_exit_def
        split: option.splits if_splits)

lemma voskLoader_Throw_same: "voskLoader ev w = (Throw e, w') \<Longrightarrow> w' = w"
  by (auto simp: voskLoader_def andThen_def emit_def process_exit_def
        split: option.splits if_splits)

lemma voskLoader_cases:
  obtains (cached) h where "model w = Some h" and "voskLoader ev w = (Ok h, w)"
  | (exit) "model w = None"
      and "voskLoader ev w = (Halt 1, w\<lparr>trace := trace w @ [EvLogError (ModelNotFound (MODEL_PATH ev))]\<rparr>)"
  | (throws) msg where "model w = None" and "voskLoader ev w = (Throw (VoskError msg), w)"
  | (loaded) "model w = None"
      and "voskLoader ev w = (Ok (VoskModel (MODEL_PATH ev)),
             w\<lparr>model := Some (VoskModel (MODEL_PATH ev)),
               trace := trace w @ [EvModelNew (MODEL_PATH ev)]\<rparr>)"
  by (cases "model w"; cases "exists_at (fs w) (fs_key ev (MODEL_PATH ev))";
      cases "vosk_Model ev (fs w) (fs_key ev (MODEL_PATH ev))")
     (auto simp: voskLoader_def andThen_def emit_def process_exit_def)

lemma cached_voskLoader: "preserves (\<lambda>w. model w = Some h) (voskLoader ev)"
  by (simp add: preserves_def voskLoader_cached)

lemma load_calls_cached: "model w = Some h \<Longrightarrow> load_calls ev n w = (replicate n (Ok h), w)"
  by (induction n) (simp_all add: voskLoader_cached)

lemma load_calls_constructions:
  "length (filter is_model_new (trace (snd (load_calls ev n w))))
   \<le> length (filter is_model_new (trace w)) + (if model w = None then 1 else 0)"
proof (induction n arbitrary: w)
  case 0
  show ?case by simp
next
  case (Suc n)
  show ?case
  proof (cases rule: voskLoader_cases [of w ev])
    case (cached h)
    then show ?thesis by (simp add: load_calls_cached)
  next
    case exit
    then show ?thesis by simp
  next
    case (throws msg)
    then show ?thesis using Suc.IH [of w] by (cases "load_calls ev n w") simp
  next
    case loaded
    let ?w' = "w\<lparr>model := Some (VoskModel (MODEL_PATH ev)),
                 trace := trace w @ [EvModelNew (MODEL_PATH ev)]\<rparr>"
    have "load_calls ev n ?w' = (replicate n (Ok (VoskModel (MODEL_PATH ev))), ?w')"
      by (rule load_calls_cached) simp
    with loaded show ?thesis by simp
  qed
qed

lemma try_catch_emit_no_throw: "try_catch m (\<lambda>e. emit (g e)) w \<noteq> (Throw e', w')"
  by (auto simp: try_catch_def emit_def split: prod.splits res.splits)

lemma loadTtsConfigs_no_throw: "loadTtsConfigs ev w \<noteq> (Throw e, w')"
  unfolding loadTtsConfigs_def by (rule try_catch_emit_no_throw)


lemma framed_cached: "framed no_event (\<lambda>w. model w = Some h)"
  by (rule framed_model)

lemma cached_loadTtsConfigs: "preserves (\<lambda>w. model w = Some h) (loadTtsConfigs ev)"
  by (rule frame_loadTtsConfigs [OF framed_cached]) (simp add: no_event_def)

lemma cached_ensureVosk: "preserves (\<lambda>w. model w = Some h) (ensureVoskModelDownloaded ev)"
proof -
  note fr = framed_cached [of h]
  have dl: "preserves (\<lambda>w. model w = Some h) (downloadFile ev url dest)" for url dest
    by (rule frame_downloadFile [OF fr]) (simp add: no_event_def)
  have ex: "preserves (\<lambda>w. model w = Some h) (extractZip ev zp dir)" for zp dir
    by (rule frame_extractZip [OF fr]) (simp add: no_event_def)
  have rm: "preserves (\<lambda>w. model w = Some h) (fs_unlink ev q)" for q
    by (rule frame_fs_unlink [OF fr]) (simp add: no_event_def)
  have em: "preserves (\<lambda>w. model w = Some h) (emit e)" for e
    by (rule frame_emit [OF fr]) (simp add: no_event_def)
  show ?thesis
    unfolding ensureVoskModelDownloaded_def model_already_present_def Let_def
    by (intro preserves_andThen preserves_try_catch preserves_if preserves_ret
          frame_fs_access cached_voskLoader cached_loadTtsConfigs dl ex rm em)
qed

lemma cached_setupPiper: "preserves (\<lambda>w. model w = Some h) (setupPiper ev)"
proof -
  note fr = framed_cached [of h]
  have rt: "preserves (\<lambda>w. model w = Some h) (install_runtime ev)"
    by (rule frame_install_runtime [OF fr]) (simp_all add: no_event_def)
  have dv: "preserves (\<lambda>w. model w = Some h) (download_voices ev ms)" for ms
    by (rule frame_download_voices [OF fr]) (simp add: no_event_def)
  have gc: "preserves (\<lambda>w. model w = Some h) (generate_configs ev ms)" for ms
    by (rule frame_generate_configs [OF fr]) (simp add: no_event_def)
  have em: "preserves (\<lambda>w. model w = Some h) (emit e)" for e
    by (rule frame_emit [OF fr]) (simp add: no_event_def)
  show ?thesis
    unfolding setupPiper_def setup_voices_def
    by (intro preserves_try_catch preserves_andThen rt dv gc em cached_ensureVosk
          frame_fs_mkdir [OF fr] preserves_exit)
qed

lemma cached_synthesize: "preserves (\<lambda>w. model w = Some h) (synthesizeWithPiper ev t v)"
  by (rule frame_synthesizeWithPiper [OF framed_cached]) (simp_all add: no_event_def)

lemma cached_transcribe_l28: "preserves (\<lambda>w. model w = Some h) (transcribeWithVosk_l28 ev p)"
  by (auto simp: preserves_def transcribeWithVosk_l28_def voskLoader_cached
        split: sum.splits vosk_outcome.splits vosk_result.splits option.splits list.splits)

lemma cached_transcribe_l91: "preserves (\<lambda>w. model w = Some h) (transcribeWithVosk_l91 ev p)"
  by (auto simp: preserves_def transcribeWithVosk_l91_def voskLoader_cached Let_def
        split: sum.splits vosk_outcome.splits)

lemma model_already_present_False:
  assumes "model_already_present ev w = (Ok False, w0)"
  shows "model w0 = model w"
proof -
  let ?dir = "path_join [EXTRACT_PATH, ''vosk-model-en-us-0.22'']"
  let ?body = "andThen (fs_access ev ?dir) (\<lambda>_.
               andThen (voskLoader ev) (\<lambda>m.
               andThen (loadTtsConfigs ev) (\<lambda>_. ret True)))"
  have tc: "try_catch ?body (\<lambda>_. ret False) w = (Ok False, w0)"
    using assms by (simp add: model_already_present_def Let_def)
  obtain r wb where body: "?body w = (r, wb)" by (cases "?body w")
  have "r \<noteq> Ok False"
    using body
    by (auto simp: andThen_def ret_def split: prod.splits res.splits)
  with tc body obtain e where thrown: "?body w = (Throw e, w0)"
    by (cases r) (auto simp: try_catch_def ret_def)
  show ?thesis
  proof (cases "fs_access ev ?dir w")
    case (Pair ra wa)
    have wa: "wa = w" using Pair by (auto simp: fs_access_def split: if_splits)
    show ?thesis
    proof (cases ra)
      case (Ok u)
      with Pair wa thrown
      have v: "andThen (voskLoader ev) (\<lambda>m. andThen (loadTtsConfigs ev) (\<lambda>_. ret True)) w
               = (Throw e, w0)"
        by (simp add: andThen_def)
      show ?thesis
      proof (cases "voskLoader ev w")
        case (Pair rv wv)
        show ?thesis
        proof (cases rv)
          case (Ok m)
          with Pair v have "andThen (loadTtsConfigs ev) (\<lambda>_. ret True) wv = (Throw e, w0)"
            by (simp add: andThen_def)
          then have "loadTtsConfigs ev wv = (Throw e, w0)"
            by (auto simp: andThen_def ret_def split: prod.splits res.splits)
          then show ?thesis by (simp add: loadTtsConfigs_no_throw)
        next
          case (Throw e')
          with Pair v voskLoader_Throw_same [of ev w e' wv] show ?thesis
            by (simp add: andThen_def)
        qed (use Pair v in \<open>simp_all add: andThen_def\<close>)
      qed
    qed (use Pair wa thrown in \<open>simp_all add: andThen_def\<close>)
  qed
qed

section \<open>Synthesis\<close>

lemma require_json_uuids:
  "require_json ev p (w\<lparr>uuids := n\<rparr>)
   = (fst (require_json ev p w), (snd (require_json ev p w))\<lparr>uuids := n\<rparr>)"
  by (auto simp: require_json_def Let_def split: option.splits node.splits content.splits)

lemma require_json_fs: "fs (snd (require_json ev p w)) = fs w"
  by (auto simp: require_json_def Let_def split: option.splits node.splits content.splits)

lemma require_json_trace: "trace (snd (require_json ev p w)) = trace w"
  by (auto simp: require_json_def Let_def split: option.splits node.splits content.splits)

lemma js_get_truthy: "js_get cfg k = Some v \<Longrightarrow> truthy cfg"
  by (cases cfg) simp_all

lemma run_piper_spawns:
  assumes "py \<noteq> []"
  shows "run_piper ev (Some (JStr py)) mp out t w
         = (case spawn_process ev py [''-m'', ''piper'', ''--model'', mp, ''--output_file'', out]
                  (t @ [0xA]) (fs w) of
              (Exited code so se, f) \<Rightarrow>
                (if code = Some 0 then Ok (Some out) else Throw (PiperExited code),
                 w\<lparr>trace := trace w @ [EvSpawn py [''-m'', ''piper'', ''--model'', mp, ''--output_file'', out] (t @ [0xA])],
                   fs := f\<rparr>)
            | (SpawnFailed msg, f) \<Rightarrow>
                (Throw (SpawnError msg),
                 w\<lparr>trace := trace w @ [EvSpawn py [''-m'', ''piper'', ''--model'', mp, ''--output_file'', out] (t @ [0xA])],
                   fs := f\<rparr>))"
  using assms
  by (simp add: run_piper_def Let_def andThen_def emit_def split: prod.splits proc_result.splits)

lemma generateTts_configured:
  assumes "require_json ev (''./tts_configs/'' @ p @ ''.json'') w = (Ok cfg, w1)"
      and "js_get cfg ''modelPath'' = Some (JStr mp)" and "mp \<noteq> []"
  shows "generateTts ev t (Some p) (Some out) w
         = run_piper ev (js_get cfg ''pythonPath'') (path_resolve (cwd ev) [mp]) out t w1"
  using assms js_get_truthy [OF assms(2)]
  by (simp add: generateTts_def Let_def andThen_def ret_def)

lemma synthesizeWithPiper_unfold:
  "synthesizeWithPiper ev text voice w
   = (case generateTts ev (stripEmojis ev text) (Some (or_default voice ''en_US-lessac-medium''))
             (Some (''uploads/'' @ randomUUID ev (uuids w) @ ''.wav''))
             (w\<lparr>uuids := Suc (uuids w)\<rparr>) of
        (Ok r, w') \<Rightarrow> (Ok r, w')
      | (Throw e, w') \<Rightarrow> (Hang, w'\<lparr>trace := trace w' @ [EvUnhandledRejection e]\<rparr>)
      | (Halt n, w') \<Rightarrow> (Halt n, w')
      | (Hang, w') \<Rightarrow> (Hang, w'))"
  by (simp add: synthesizeWithPiper_def andThen_def fresh_wav_def Let_def)

lemma synthesizeWithPiper_never_rejects: "fst (synthesizeWithPiper ev text voice w) \<noteq> Throw e"
  by (simp add: synthesizeWithPiper_unfold split: prod.splits res.splits)

lemma synthesizeWithPiper_swallows:
  assumes "generateTts ev (stripEmojis ev text) (Some (or_default voice ''en_US-lessac-medium''))
             (Some (''uploads/'' @ randomUUID ev (uuids w) @ ''.wav''))
             (w\<lparr>uuids := Suc (uuids w)\<rparr>) = (Throw e, w')"
  shows "synthesizeWithPiper ev text voice w
         = (Hang, w'\<lparr>trace := trace w' @ [EvUnhandledRejection e]\<rparr>)"
  using assms by (simp add: synthesizeWithPiper_unfold)

text \<open>
  The outcome of a call for a voice whose configuration loads: the engine is started with
  the Python and the model path of the configuration, and the call resolves exactly when
  the engine exits with status 0. Every other end of the engine leaves the call pending.
\<close>

lemma synthesize_configured:
  assumes "fst (require_json ev (''./tts_configs/'' @ or_default voice ''en_US-lessac-medium''
                  @ ''.json'') w) = Ok cfg"
      and "js_get cfg ''modelPath'' = Some (JStr mp)" and "mp \<noteq> []"
      and "js_get cfg ''pythonPath'' = Some (JStr py)" and "py \<noteq> []"
  shows "EvSpawn py
           [''-m'', ''piper'', ''--model'', path_resolve (cwd ev) [mp], ''--output_file'',
            ''uploads/'' @ randomUUID ev (uuids w) @ ''.wav'']
           (stripEmojis ev text @ [0xA])
         \<in> set (trace (snd (synthesizeWithPiper ev text voice w)))"
    and "fst (synthesizeWithPiper ev text voice w)
         = (case fst (spawn_process ev py
                  [''-m'', ''piper'', ''--model'', path_resolve (cwd ev) [mp], ''--output_file'',
                   ''uploads/'' @ randomUUID ev (uuids w) @ ''.wav'']
                  (stripEmojis ev text @ [0xA]) (fs w)) of
              Exited code so se \<Rightarrow>
                if code = Some 0 then Ok (Some (''uploads/'' @ randomUUID ev (uuids w) @ ''.wav''))
                else Hang
            | SpawnFailed msg \<Rightarrow> Hang)"
proof -
  let ?v = "or_default voice ''en_US-lessac-medium''"
  let ?out = "''uploads/'' @ randomUUID ev (uuids w) @ ''.wav''"
  let ?args = "[''-m'', ''piper'', ''--model'', path_resolve (cwd ev) [mp], ''--output_file'', ?out]"
  let ?input = "stripEmojis ev text @ [0xA]"
  let ?w0 = "w\<lparr>uuids := Suc (uuids w)\<rparr>"
  let ?path = "''./tts_configs/'' @ ?v @ ''.json''"
  define w1 where "w1 = snd (require_json ev ?path ?w0)"
  have rq: "require_json ev ?path ?w0 = (Ok cfg, w1)"
    using assms(1) by (simp add: require_json_uuids w1_def)
  have w1: "fs w1 = fs w" "trace w1 = trace w"
    by (simp_all add: w1_def require_json_fs require_json_trace)
  have gen: "generateTts ev (stripEmojis ev text) (Some ?v) (Some ?out) ?w0
             = run_piper ev (Some (JStr py)) (path_resolve (cwd ev) [mp]) ?out (stripEmojis ev text) w1"
    using generateTts_configured [OF rq assms(2,3), of "stripEmojis ev text" ?out] assms(4) by simp
  obtain r f where sp: "spawn_process ev py ?args ?input (fs w) = (r, f)"
    by (cases "spawn_process ev py ?args ?input (fs w)")
  have run: "run_piper ev (Some (JStr py)) (path_resolve (cwd ev) [mp]) ?out (stripEmojis ev text) w1
             = (case r of
                  Exited code so se \<Rightarrow> if code = Some 0 then Ok (Some ?out) else Throw (PiperExited code)
                | SpawnFailed msg \<Rightarrow> Throw (SpawnError msg),
                w1\<lparr>trace := trace w @ [EvSpawn py ?args ?input], fs := f\<rparr>)"
    using assms(5) sp w1 by (cases r) (simp_all add: run_piper_spawns)
  show "EvSpawn py ?args ?input \<in> set (trace (snd (synthesizeWithPiper ev text voice w)))"
    unfolding synthesizeWithPiper_unfold gen run by (cases r) (simp_all split: if_splits)
  show "fst (synthesizeWithPiper ev text voice w)
        = (case fst (spawn_process ev py ?args ?input (fs w)) of
             Exited code so se \<Rightarrow> if code = Some 0 then Ok (Some ?out) else Hang
           | SpawnFailed msg \<Rightarrow> Hang)"
    unfolding synthesizeWithPiper_unfold gen run sp by (cases r) simp_all
qed

text \<open>
  The outcome of a call for a voice whose configuration does not load: no process is
  started, the error of \<open>require\<close> ends as an unhandled rejection, and the call stays
  pending.
\<close>

lemma require_json_Throw_same: "require_json ev p w = (Throw e, w') \<Longrightarrow> w' = w"
  by (auto simp: require_json_def Let_def split: option.splits node.splits content.splits)

lemma synthesize_unconfigured:
  assumes "fst (require_json ev (''./tts_configs/'' @ or_default voice ''en_US-lessac-medium''
                  @ ''.json'') w) = Throw e"
  shows "synthesizeWithPiper ev text voice w
         = (Hang, w\<lparr>uuids := Suc (uuids w), trace := trace w @ [EvUnhandledRejection e]\<rparr>)"
proof -
  let ?v = "or_default voice ''en_US-lessac-medium''"
  let ?w0 = "w\<lparr>uuids := Suc (uuids w)\<rparr>"
  let ?path = "''./tts_configs/'' @ ?v @ ''.json''"
  have "fst (require_json ev ?path ?w0) = Throw e"
    using assms by (simp add: require_json_uuids)
  then have "require_json ev ?path ?w0 = (Throw e, ?w0)"
    using require_json_Throw_same [of ev ?path ?w0 e "snd (require_json ev ?path ?w0)"]
    by (simp add: prod_eq_iff)
  then have "generateTts ev (stripEmojis ev text) (Some ?v)
               (Some (''uploads/'' @ randomUUID ev (uuids w) @ ''.wav'')) ?w0 = (Throw e, ?w0)"
    by (simp add: generateTts_def Let_def andThen_def ret_def)
  then show ?thesis
    by (simp add: synthesizeWithPiper_unfold)
qed

lemma synthesizeWithPiper_outcome:
  assumes "stripEmojis ev text = clean"
      and "or_default voice ''en_US-lessac-medium'' = v"
      and "''uploads/'' @ randomUUID ev (uuids w) @ ''.wav'' = out"
      and "generateTts ev clean (Some v) (Some out) (w\<lparr>uuids := Suc (uuids w)\<rparr>) = (r, w')"
  shows "fst (synthesizeWithPiper ev text voice w)
         = (case r of Ok x \<Rightarrow> Ok x | Throw e \<Rightarrow> Hang | Halt n \<Rightarrow> Halt n | Hang \<Rightarrow> Hang)"
    and "trace (snd (synthesizeWithPiper ev text voice w))
         = (case r of Throw e \<Rightarrow> trace w' @ [EvUnhandledRejection e] | _ \<Rightarrow> trace w')"
proof -
  have g: "generateTts ev (stripEmojis ev text) (Some (or_default voice ''en_US-lessac-medium''))
             (Some (''uploads/'' @ randomUUID ev (uuids w) @ ''.wav''))
             (w\<lparr>uuids := Suc (uuids w)\<rparr>) = (r, w')"
    unfolding assms(1-3) by (rule assms(4))
  show "fst (synthesizeWithPiper ev text voice w)
         = (case r of Ok x \<Rightarrow> Ok x | Throw e \<Rightarrow> Hang | Halt n \<Rightarrow> Halt n | Hang \<Rightarrow> Hang)"
    unfolding synthesizeWithPiper_unfold g by (cases r) simp_all
  show "trace (snd (synthesizeWithPiper ev text voice w))
         = (case r of Throw e \<Rightarrow> trace w' @ [EvUnhandledRejection e] | _ \<Rightarrow> trace w')"
    unfolding synthesizeWithPiper_unfold g by (cases r) simp_all
qed

text \<open>The sample texts contain nothing that \<open>stripEmojis\<close> removes on the sample engine.\<close>

lemmas sample_engine_defs =
  stripEmojis_def trim_def is_js_whitespace_def emoji_class_def sample_env_def
  env_engine_exit1_def unicode15_Emoji_def unicode15_Emoji_Presentation_def in_ranges_def
  Emoji_ranges_def Emoji_Presentation_ranges_def

lemma stripEmojis_text_hi: "stripEmojis sample_env text_hi = text_hi"
  by (simp add: sample_engine_defs text_hi_def)

lemma stripEmojis_text_hello:
  "stripEmojis sample_env text_hello = text_hello"
  "stripEmojis env_engine_exit1 text_hello = text_hello"
  by (simp_all add: sample_engine_defs text_hello_def)

lemma first_upload_name:
  "''uploads/'' @ randomUUID sample_env (uuids serving_world) @ ''.wav'' = ''uploads/u.wav''"
  "''uploads/'' @ randomUUID env_engine_exit1 (uuids serving_world) @ ''.wav'' = ''uploads/u.wav''"
  by (simp_all add: sample_env_def env_engine_exit1_def serving_world_def)


section \<open>Transcription\<close>

lemma final_text_first:
  "final_text (ResultObj (Some (Alternative (Some t) # alts))) = trim t"
  by (simp add: final_text_def)

lemma transcribe_l91_no_speech:
  assumes "voskLoader ev w = (Ok m, w1)"
      and "stream_file ev p w1 = Inr audio"
      and "vosk_finalResult ev audio = Final r"
      and "final_text r = []"
  shows "transcribeWithVosk_l91 ev p w = (Ok NoSpeech, w1)"
  using assms by (simp add: transcribeWithVosk_l91_def)

lemma transcribe_l28_hangs_on_empty:
  assumes "voskLoader ev w = (Ok m, w1)"
      and "stream_file ev p w1 = Inr audio"
      and "vosk_finalResult ev audio = Final (ResultObj (Some (Alternative (Some []) # alts)))"
  shows "transcribeWithVosk_l28 ev p w = (Hang, w1)"
  using assms by (simp add: transcribeWithVosk_l28_def)

lemma transcribe_l28_never_no_speech: "fst (transcribeWithVosk_l28 ev p w) \<noteq> Ok NoSpeech"
  by (auto simp: transcribeWithVosk_l28_def
        split: prod.splits res.splits sum.splits vosk_outcome.splits vosk_result.splits
          option.splits list.splits)

section \<open>Calls that return or throw\<close>

lemma settlesI: "(\<And>w. \<exists>x. fst (m w) = Ok x \<or> (\<exists>e. fst (m w) = Throw e)) \<Longrightarrow> settles m"
  unfolding settles_def
proof
  fix w
  assume "\<And>w. \<exists>x. fst (m w) = Ok x \<or> (\<exists>e. fst (m w) = Throw e)"
  then obtain x where "fst (m w) = Ok x \<or> (\<exists>e. fst (m w) = Throw e)" by blast
  then show "case fst (m w) of Ok x \<Rightarrow> True | Throw e \<Rightarrow> True | Halt n \<Rightarrow> False | Hang \<Rightarrow> False"
    by auto
qed

lemma settlesD: "settles m \<Longrightarrow> m w = (r, w') \<Longrightarrow> (\<exists>x. r = Ok x) \<or> (\<exists>e. r = Throw e)"
  unfolding settles_def by (cases r) (auto dest: spec [of _ w])

lemma settles_ret: "settles (ret x)"
  by (simp add: settles_def ret_def)

lemma settles_throw: "settles (throw e)"
  by (simp add: settles_def throw_def)

lemma settles_emit: "settles (emit e)"
  by (simp add: settles_def emit_def)

lemma settles_lift_fs: "settles (lift_fs step)"
  by (auto simp: settles_def lift_fs_def split: prod.splits option.splits)

lemma settles_andThen:
  assumes "settles m" and "\<And>x. settles (f x)"
  shows "settles (andThen m f)"
  unfolding settles_def
proof
  fix w
  obtain r w' where mw: "m w = (r, w')" by (cases "m w")
  from settlesD [OF assms(1) mw] show
    "case fst (andThen m f w) of Ok x \<Rightarrow> True | Throw e \<Rightarrow> True | Halt n \<Rightarrow> False | Hang \<Rightarrow> False"
    using assms(2) mw by (auto simp: andThen_def settles_def)
qed

lemma settles_fs_readdir: "settles (fs_readdir ev p)"
  by (simp add: settles_def fs_readdir_def Let_def)

lemma settles_fs_readFile: "settles (fs_readFile ev p)"
  by (simp add: settles_def fs_readFile_def split: option.splits node.splits)

lemma settles_load_files: "settles (load_files ev files)"
proof (induction files)
  case Nil
  show ?case by (simp add: settles_ret)
next
  case (Cons fl fls)
  have upd: "settles
               (case c of
                  Json v \<Rightarrow> (\<lambda>w. (Ok (), w\<lparr>ttsConfigs := AList.update k v (ttsConfigs w)\<rparr>))
                | _ \<Rightarrow> emit (EvLogError (SyntaxError fl)))" for c k
    by (cases c) (simp_all add: settles_emit, simp add: settles_def)
  show ?case
    using Cons.IH
    by (auto simp: Let_def intro!: settles_andThen settles_fs_readFile upd)
qed

lemma loadTtsConfigs_returns: "fst (loadTtsConfigs ev w) = Ok ()"
proof -
  let ?body = "andThen (fs_mkdir ev ''tts_configs'') (\<lambda>_.
               andThen (fs_readdir ev ''tts_configs'') (\<lambda>files. load_files ev files))"
  have "settles ?body"
    by (intro settles_andThen settles_fs_readdir settles_load_files)
       (simp add: fs_mkdir_def settles_lift_fs)
  obtain r w' where b: "?body w = (r, w')" by (cases "?body w")
  from settlesD [OF \<open>settles ?body\<close> b] show ?thesis
    using b by (auto simp: loadTtsConfigs_def try_catch_def emit_def)
qed

lemma ensure_present_is_load:
  assumes "exists_at (fs w) (fs_key ev (path_join [EXTRACT_PATH, ''vosk-model-en-us-0.22'']))"
      and "model w = Some h"
  shows "ensureVoskModelDownloaded ev w = (Ok (), snd (loadTtsConfigs ev w))"
proof -
  obtain wl where l: "loadTtsConfigs ev w = (Ok (), wl)"
    using loadTtsConfigs_returns [of ev w] by (cases "loadTtsConfigs ev w") simp
  have "model_already_present ev w = (Ok True, wl)"
    using assms l
    by (simp add: model_already_present_def Let_def try_catch_def andThen_def fs_access_def
          voskLoader_cached ret_def)
  then show ?thesis
    using l by (simp add: ensureVoskModelDownloaded_def andThen_def ret_def)
qed

lemma ensure_present_no_transfer:
  assumes "exists_at (fs w) (fs_key ev (path_join [EXTRACT_PATH, ''vosk-model-en-us-0.22'']))"
      and "model w = Some h"
  shows "filter is_transfer (trace (snd (ensureVoskModelDownloaded ev w)))
         = filter is_transfer (trace w)"
proof -
  have "preserves (\<lambda>w'. filter is_transfer (trace w') = filter is_transfer (trace w))
          (loadTtsConfigs ev)"
    by (rule frame_loadTtsConfigs [OF framed_events]) simp
  then show ?thesis
    using ensure_present_is_load [OF assms] by (simp add: preserves_def)
qed


section \<open>C1: a failed voice download\<close>

lemma download_voices_append:
  "download_voices ev (xs @ ys) = andThen (download_voices ev xs) (\<lambda>_. download_voices ev ys)"
  by (induction xs) (simp_all add: andThen_ret andThen_assoc Let_def)

lemma download_voices_stops:
  assumes "download_voices ev pre w0 = (Ok (), w1)"
      and "download_voices ev [m] w1 = (Throw e, w2)"
  shows "download_voices ev (pre @ m # post) w0 = (Throw e, w2)"
proof -
  have "download_voices ev (m # post) w1 = (Throw e, w2)"
    using download_voices_append [of ev "[m]" post] assms(2)
    by (simp add: andThen_Throw)
  then show ?thesis
    using assms(1) by (simp add: download_voices_append andThen_Ok)
qed

lemma written_install_runtime:
  "preserves (\<lambda>w. filter is_write (trace w) = evs) (install_runtime ev)"
  by (rule frame_install_runtime [OF framed_events]) (auto elim: is_transfer.elims is_spawn.elims)

lemma written_download_voices:
  "preserves (\<lambda>w. filter is_write (trace w) = evs) (download_voices ev ms)"
  by (rule frame_download_voices [OF framed_events]) (auto elim: is_transfer.elims)

text \<open>
  Claim C1, amended. The download loop of \<open>setupPiper\<close> has no error handling of its own.
  When the runtime is in place, the descriptors \<open>pre\<close> are downloaded and the download of
  the next descriptor \<open>m\<close> fails with \<open>e\<close>, then \<open>setupPiper\<close> reports \<open>e\<close> and ends the
  process with status 1 in the state of that failure: the descriptors \<open>post\<close> are not
  processed, and up to the failure no configuration file was written.
\<close>

theorem setupPiper_aborts_on_failed_download:
  assumes "install_runtime ev w = (Ok (), w0)"
      and "VOICE_MODELS ev = pre @ m # post"
      and "download_voices ev pre w0 = (Ok (), w1)"
      and "download_voices ev [m] w1 = (Throw e, w2)"
  shows "setupPiper ev w = (Halt 1, w2\<lparr>trace := trace w2 @ [EvLogError e]\<rparr>)
         \<and> filter is_write (trace w2) = filter is_write (trace w)"
proof -
  have dl: "download_voices ev (VOICE_MODELS ev) w0 = (Throw e, w2)"
    using assms by (simp add: download_voices_stops)
  have "setup_voices ev w = (Throw e, w2)"
    using assms(1) dl by (simp add: setup_voices_def andThen_Ok andThen_Throw)
  then have "setupPiper ev w = (Halt 1, w2\<lparr>trace := trace w2 @ [EvLogError e]\<rparr>)"
    by (simp add: setupPiper_def andThen_Throw try_catch_Throw andThen_def emit_def process_exit_def)
  moreover have "filter is_write (trace w0) = filter is_write (trace w)"
    using preservesD [OF written_install_runtime _ assms(1)] by simp
  moreover have "filter is_write (trace w1) = filter is_write (trace w0)"
    using preservesD [OF written_download_voices _ assms(3)] by simp
  moreover have "filter is_write (trace w2) = filter is_write (trace w1)"
    using preservesD [OF written_download_voices _ assms(4)] by simp
  ultimately show ?thesis by simp
qed

text \<open>
  The theorem at the catalog of three voices whose second model URL answers 404.
\<close>

theorem setupPiper_aborts_on_failed_download_witness:
  "install_runtime env_voice2_404 boot_world = (Ok (), world_runtime_ready)
   \<and> VOICE_MODELS env_voice2_404 = [voice_lessac] @ voice_alan # [voice_thorsten]
   \<and> download_voices env_voice2_404 [voice_lessac] world_runtime_ready = (Ok (), world_voice1_done)
   \<and> download_voices env_voice2_404 [voice_alan] world_voice1_done
       = (Throw (NotFound404 ''https://voices.example/2.onnx''), world_voice2_failed)
   \<and> setupPiper env_voice2_404 boot_world
       = (Halt 1, world_voice2_failed\<lparr>trace := trace world_voice2_failed
            @ [EvLogError (NotFound404 ''https://voices.example/2.onnx'')]\<rparr>)
   \<and> filter is_write (trace world_voice2_failed) = filter is_write (trace boot_world)"
proof -
  have "fst (install_runtime env_voice2_404 boot_world) = Ok ()"
    by code_simp
  then have h1: "install_runtime env_voice2_404 boot_world = (Ok (), world_runtime_ready)"
    by (simp add: world_runtime_ready_def prod_eq_iff)
  have h2: "VOICE_MODELS env_voice2_404 = [voice_lessac] @ voice_alan # [voice_thorsten]"
    by (simp add: env_voice2_404_def sample_env_def sample_catalog_def)
  have "fst (download_voices env_voice2_404 [voice_lessac] world_runtime_ready) = Ok ()"
    by code_simp
  then have h3: "download_voices env_voice2_404 [voice_lessac] world_runtime_ready
                 = (Ok (), world_voice1_done)"
    by (simp add: world_voice1_done_def prod_eq_iff)
  have "fst (download_voices env_voice2_404 [voice_alan] world_voice1_done)
        = Throw (NotFound404 ''https://voices.example/2.onnx'')"
    by code_simp
  then have h4: "download_voices env_voice2_404 [voice_alan] world_voice1_done
                 = (Throw (NotFound404 ''https://voices.example/2.onnx''), world_voice2_failed)"
    by (simp add: world_voice2_failed_def prod_eq_iff)
  from setupPiper_aborts_on_failed_download [OF h1 h2 h3 h4] h1 h2 h3 h4
  show ?thesis by simp
qed

text \<open>
  Claim C1 as stated does not hold. With three voices of which the second answers 404,
  the process ends with status 1; no configuration is written for the first or the third
  voice, and the model of the third voice is never downloaded.
\<close>

theorem voice_failure_aborts_catalog:
  "fst (setupPiper env_voice2_404 boot_world) = Halt 1
   \<and> map_of (fs (snd (setupPiper env_voice2_404 boot_world)))
        [''app'', ''tts_configs'', ''en_US-lessac-medium.json''] = None
   \<and> map_of (fs (snd (setupPiper env_voice2_404 boot_world)))
        [''app'', ''tts_configs'', ''de_DE-thorsten-medium.json''] = None
   \<and> map_of (fs (snd (setupPiper env_voice2_404 boot_world)))
        [''app'', ''piper'', ''models'', ''de_DE-thorsten-medium.onnx''] = None"
  by code_simp

section \<open>C2: a failed download or extraction of the recognition model\<close>

text \<open>
  Claim C2, amended. When the fixed model directory is absent and the download of the
  archive, or after it the extraction, fails with \<open>e\<close>, the failure is caught inside
  \<open>ensureVoskModelDownloaded\<close>: \<open>e\<close> is logged and the function returns normally, so
  \<open>setupPiper\<close> returns normally as well and the process does not exit. The cached model
  is what it was before the attempt.
\<close>

theorem archive_failure_is_swallowed:
  assumes "setup_voices ev w = (Ok (), wv)"
      and "model_already_present ev wv = (Ok False, w0)"
      and "downloadFile ev (MODEL_URL ev) (ZIP_PATH ev) w0 = (Throw e, w1)
           \<or> (\<exists>wd. downloadFile ev (MODEL_URL ev) (ZIP_PATH ev) w0 = (Ok (), wd)
                   \<and> extractZip ev (ZIP_PATH ev) EXTRACT_PATH wd = (Throw e, w1))"
  shows "ensureVoskModelDownloaded ev wv = (Ok (), w1\<lparr>trace := trace w1 @ [EvLogError e]\<rparr>)
         \<and> setupPiper ev w = (Ok (), w1\<lparr>trace := trace w1 @ [EvLogError e]\<rparr>)
         \<and> model w1 = model wv"
proof -
  let ?fetch = "andThen (downloadFile ev (MODEL_URL ev) (ZIP_PATH ev)) (\<lambda>_.
                andThen (extractZip ev (ZIP_PATH ev) EXTRACT_PATH) (\<lambda>_.
                andThen (fs_unlink ev (ZIP_PATH ev)) (\<lambda>_.
                andThen (voskLoader ev) (\<lambda>m. loadTtsConfigs ev))))"
  have fetch: "?fetch w0 = (Throw e, w1)"
    using assms(3) by (auto simp: andThen_def)
  have ens: "ensureVoskModelDownloaded ev wv = (Ok (), w1\<lparr>trace := trace w1 @ [EvLogError e]\<rparr>)"
    using assms(2) fetch
    by (simp add: ensureVoskModelDownloaded_def andThen_def try_catch_def emit_def)
  have "setupPiper ev w = (Ok (), w1\<lparr>trace := trace w1 @ [EvLogError e]\<rparr>)"
    using assms(1) ens by (simp add: setupPiper_def andThen_def try_catch_def)
  moreover have "model w1 = model w0"
  proof -
    have dl: "preserves (\<lambda>w. model w = model w0) (downloadFile ev (MODEL_URL ev) (ZIP_PATH ev))"
      by (rule frame_downloadFile [where Q = no_event]) (simp_all add: framed_model no_event_def)
    have ex: "preserves (\<lambda>w. model w = model w0) (extractZip ev (ZIP_PATH ev) EXTRACT_PATH)"
      by (rule frame_extractZip [where Q = no_event]) (simp_all add: framed_model no_event_def)
    from assms(3) show ?thesis
    proof
      assume "downloadFile ev (MODEL_URL ev) (ZIP_PATH ev) w0 = (Throw e, w1)"
      with dl show ?thesis by (auto dest: preservesD)
    next
      assume "\<exists>wd. downloadFile ev (MODEL_URL ev) (ZIP_PATH ev) w0 = (Ok (), wd)
                   \<and> extractZip ev (ZIP_PATH ev) EXTRACT_PATH wd = (Throw e, w1)"
      then obtain wd where d: "downloadFile ev (MODEL_URL ev) (ZIP_PATH ev) w0 = (Ok (), wd)"
        and x: "extractZip ev (ZIP_PATH ev) EXTRACT_PATH wd = (Throw e, w1)"
        by blast
      have "model wd = model w0" using preservesD [OF dl _ d] by simp
      then show ?thesis using preservesD [OF ex _ x] by simp
    qed
  qed
  moreover have "model w0 = model wv"
    using assms(2) by (rule model_already_present_False)
  ultimately show ?thesis using ens by simp
qed

text \<open>The theorem at the run in which the archive answers 404.\<close>

theorem archive_failure_is_swallowed_witness:
  "setup_voices env_archive_404 boot_world = (Ok (), world_voices_ready)
   \<and> model_already_present env_archive_404 world_voices_ready = (Ok False, world_voices_ready)
   \<and> downloadFile env_archive_404 (MODEL_URL env_archive_404) (ZIP_PATH env_archive_404)
        world_voices_ready
       = (Throw (NotFound404 (MODEL_URL env_archive_404)), world_archive_failed)
   \<and> setupPiper env_archive_404 boot_world
       = (Ok (), world_archive_failed\<lparr>trace := trace world_archive_failed
            @ [EvLogError (NotFound404 (MODEL_URL env_archive_404))]\<rparr>)
   \<and> model world_archive_failed = model world_voices_ready"
proof -
  have "fst (setup_voices env_archive_404 boot_world) = Ok ()"
    by code_simp
  then have h1: "setup_voices env_archive_404 boot_world = (Ok (), world_voices_ready)"
    by (simp add: world_voices_ready_def prod_eq_iff)
  have h2: "model_already_present env_archive_404 world_voices_ready
            = (Ok False, world_voices_ready)"
    by code_simp
  have "fst (downloadFile env_archive_404 (MODEL_URL env_archive_404) (ZIP_PATH env_archive_404)
          world_voices_ready) = Throw (NotFound404 (MODEL_URL env_archive_404))"
    by code_simp
  then have h3: "downloadFile env_archive_404 (MODEL_URL env_archive_404)
                   (ZIP_PATH env_archive_404) world_voices_ready
                 = (Throw (NotFound404 (MODEL_URL env_archive_404)), world_archive_failed)"
    by (simp add: world_archive_failed_def prod_eq_iff)
  from archive_failure_is_swallowed [OF h1 h2 disjI1 [OF h3]] h1 h2 h3
  show ?thesis by simp
qed

text \<open>
  Claim C2 as stated does not hold. When the archive answers 404 the provisioning run
  returns normally: the process does not exit, and no recognition model is loaded.
\<close>

theorem archive_failure_does_not_exit:
  "fst (setupPiper env_archive_404 boot_world) = Ok ()
   \<and> model (snd (setupPiper env_archive_404 boot_world)) = None"
  by code_simp

section \<open>C3: the exit status of the engine\<close>

text \<open>
  Claim C3 at the exit statuses 0 and 1. With status 0 the call of \<open>synthesizeWithPiper\<close>
  resolves with the output path. With status 1 \<open>generateTts\<close> rejects with the error that
  carries the status, but that rejection is lost in the \<open>async\<close> executor of
  \<open>synthesizeWithPiper\<close>: it ends as an unhandled rejection and the promise handed to the
  caller never settles.
\<close>

theorem engine_failure_never_reaches_caller:
  "fst (synthesizeWithPiper sample_env text_hello (Some ''en_US-lessac-medium'') serving_world)
     = Ok (Some ''uploads/u.wav'')
   \<and> fst (generateTts env_engine_exit1 text_hello (Some ''en_US-lessac-medium'')
            (Some ''uploads/u.wav'') (serving_world\<lparr>uuids := Suc (uuids serving_world)\<rparr>))
     = Throw (PiperExited (Some 1))
   \<and> fst (synthesizeWithPiper env_engine_exit1 text_hello (Some ''en_US-lessac-medium'')
            serving_world)
     = Hang
   \<and> last (trace (snd (synthesizeWithPiper env_engine_exit1 text_hello
            (Some ''en_US-lessac-medium'') serving_world)))
     = EvUnhandledRejection (PiperExited (Some 1))"
proof -
  let ?v = "''en_US-lessac-medium''"
  let ?w = "serving_world\<lparr>uuids := Suc (uuids serving_world)\<rparr>"
  have v: "or_default (Some ?v) ?v = ?v"
    by (simp add: or_default_def)
  have good: "fst (generateTts sample_env text_hello (Some ?v) (Some ''uploads/u.wav'') ?w)
              = Ok (Some ''uploads/u.wav'')"
    by code_simp
  have bad: "fst (generateTts env_engine_exit1 text_hello (Some ?v) (Some ''uploads/u.wav'') ?w)
             = Throw (PiperExited (Some 1))"
    by code_simp
  obtain w1 where g1: "generateTts sample_env text_hello (Some ?v) (Some ''uploads/u.wav'') ?w
                       = (Ok (Some ''uploads/u.wav''), w1)"
    using good by (cases "generateTts sample_env text_hello (Some ?v) (Some ''uploads/u.wav'') ?w") simp
  obtain w2 where g2: "generateTts env_engine_exit1 text_hello (Some ?v) (Some ''uploads/u.wav'') ?w
                       = (Throw (PiperExited (Some 1)), w2)"
    using bad
    by (cases "generateTts env_engine_exit1 text_hello (Some ?v) (Some ''uploads/u.wav'') ?w") simp
  note out0 = synthesizeWithPiper_outcome [OF stripEmojis_text_hello(1) v first_upload_name(1) g1]
  note out1 = synthesizeWithPiper_outcome [OF stripEmojis_text_hello(2) v first_upload_name(2) g2]
  have "fst (synthesizeWithPiper sample_env text_hello (Some ?v) serving_world)
        = Ok (Some ''uploads/u.wav'')"
    using out0(1) by simp
  moreover have "fst (synthesizeWithPiper env_engine_exit1 text_hello (Some ?v) serving_world) = Hang"
    using out1(1) by simp
  moreover have "last (trace (snd (synthesizeWithPiper env_engine_exit1 text_hello (Some ?v)
                   serving_world)))
                 = EvUnhandledRejection (PiperExited (Some 1))"
    using out1(2) by simp
  ultimately show ?thesis using bad by simp
qed

section \<open>C4: a voice without a configuration\<close>

text \<open>
  Claim C4 at the voice \<open>nonexistent-voice\<close>, which has no configuration file. \<open>require\<close>
  throws inside \<open>generateTts\<close>, which rejects without starting a process; the rejection
  is lost in the \<open>async\<close> executor of \<open>synthesizeWithPiper\<close>, whose promise never settles.
  The only effect of the call is the unhandled rejection.
\<close>

theorem unknown_voice_never_reaches_caller:
  "fst (generateTts sample_env text_hi (Some ''nonexistent-voice'') (Some ''uploads/u.wav'')
          (serving_world\<lparr>uuids := Suc (uuids serving_world)\<rparr>))
     = Throw (ModuleNotFound ''./tts_configs/nonexistent-voice.json'')
   \<and> fst (synthesizeWithPiper sample_env text_hi (Some ''nonexistent-voice'') serving_world)
     = Hang
   \<and> trace (snd (synthesizeWithPiper sample_env text_hi (Some ''nonexistent-voice'')
            serving_world))
     = [EvUnhandledRejection (ModuleNotFound ''./tts_configs/nonexistent-voice.json'')]"
proof -
  let ?v = "''nonexistent-voice''"
  let ?e = "ModuleNotFound ''./tts_configs/nonexistent-voice.json''"
  let ?w = "serving_world\<lparr>uuids := Suc (uuids serving_world)\<rparr>"
  let ?g = "generateTts sample_env text_hi (Some ?v) (Some ''uploads/u.wav'') ?w"
  have v: "or_default (Some ?v) ''en_US-lessac-medium'' = ?v"
    by (simp add: or_default_def)
  have r: "fst ?g = Throw ?e"
    by code_simp
  have t: "trace (snd ?g) = []"
    by code_simp
  have g: "?g = (Throw ?e, snd ?g)"
    using r by (simp add: prod_eq_iff)
  note out = synthesizeWithPiper_outcome [OF stripEmojis_text_hi v first_upload_name(1) g]
  have "fst (synthesizeWithPiper sample_env text_hi (Some ?v) serving_world) = Hang"
    using out(1) by simp
  moreover have "trace (snd (synthesizeWithPiper sample_env text_hi (Some ?v) serving_world))
                 = [EvUnhandledRejection ?e]"
    using out(2) t by simp
  ultimately show ?thesis using r by simp
qed

section \<open>C5: the provider of a voice\<close>

text \<open>
  Claim C5, amended. For a descriptor whose name has the shape
  \<open>lang_REGION-voice-quality\<close>, the \<open>provider\<close> field of the configuration file that
  \<open>setupPiper\<close> writes is the lower-cased \<open>lang_region\<close>, followed by an underscore and
  the voice segment as it stands: \<open>en_US-lessac-medium\<close> yields \<open>en_us_lessac\<close>.
\<close>

theorem provider_is_language_region_voice:
  assumes "name m = lang @ ''_'' @ region @ ''-'' @ voice @ ''-'' @ quality"
      and "CHR ''-'' \<notin> set lang" and "CHR ''-'' \<notin> set region" and "CHR ''-'' \<notin> set voice"
      and "generate_configs ev [m] w = (Ok (), w')"
  shows "\<exists>cfg. map_of (fs w') (fs_key ev (path_join [''tts_configs'', name m @ ''.json'']))
                 = Some (File (Json cfg))
               \<and> js_get cfg ''provider''
                 = Some (JStr (toLowerCase (lang @ ''_'' @ region) @ ''_'' @ voice))"
proof -
  let ?p = "toLowerCase (lang @ ''_'' @ region) @ ''_'' @ voice"
  have "derive_provider (name m) = Inr ?p"
    unfolding assms(1) using assms(2-4) by (rule derive_provider_shape)
  with assms(5)
  have "map_of (fs w') (fs_key ev (path_join [''tts_configs'', name m @ ''.json'']))
        = Some (File (Json (voice_config ev (name m) ?p)))"
    by (rule generate_configs_one)
  then show ?thesis
    using voice_config_provider [of ev "name m" ?p] by blast
qed

text \<open>The theorem at the voice \<open>en_US-lessac-medium\<close>.\<close>

theorem provider_is_language_region_voice_witness:
  "name voice_lessac = ''en'' @ ''_'' @ ''US'' @ ''-'' @ ''lessac'' @ ''-'' @ ''medium''
   \<and> CHR ''-'' \<notin> set ''en'' \<and> CHR ''-'' \<notin> set ''US'' \<and> CHR ''-'' \<notin> set ''lessac''
   \<and> fst (generate_configs sample_env [voice_lessac] serving_world) = Ok ()
   \<and> (\<exists>cfg. map_of (fs (snd (generate_configs sample_env [voice_lessac] serving_world)))
                (fs_key sample_env (path_join [''tts_configs'', name voice_lessac @ ''.json'']))
              = Some (File (Json cfg))
            \<and> js_get cfg ''provider''
              = Some (JStr (toLowerCase (''en'' @ ''_'' @ ''US'') @ ''_'' @ ''lessac'')))"
proof -
  have h1: "name voice_lessac = ''en'' @ ''_'' @ ''US'' @ ''-'' @ ''lessac'' @ ''-'' @ ''medium''"
    by (simp add: voice_lessac_def)
  have h2: "CHR ''-'' \<notin> set ''en''" and h3: "CHR ''-'' \<notin> set ''US''"
    and h4: "CHR ''-'' \<notin> set ''lessac''"
    by simp_all
  have ok: "fst (generate_configs sample_env [voice_lessac] serving_world) = Ok ()"
    by code_simp
  then have h5: "generate_configs sample_env [voice_lessac] serving_world
                 = (Ok (), snd (generate_configs sample_env [voice_lessac] serving_world))"
    by (simp add: prod_eq_iff)
  from provider_is_language_region_voice [OF h1 h2 h3 h4 h5] h1 h2 h3 h4 ok
  show ?thesis by blast
qed

text \<open>
  Claim C5 as stated does not hold. After provisioning, the configuration persisted for
  \<open>en_US-lessac-medium\<close> has the provider \<open>en_us_lessac\<close>, not \<open>en_us\<close>.
\<close>

theorem provider_of_lessac_is_en_us_lessac:
  "map_of (fs (snd (setupPiper sample_env boot_world)))
     [''app'', ''tts_configs'', ''en_US-lessac-medium.json'']
   = Some (File (Json (JObj
       [(''provider'', JStr ''en_us_lessac''),
        (''voice'', JStr ''en_US-lessac-medium''),
        (''language'', JStr ''English (United States)''),
        (''pythonPath'', JStr ''/app/python-portable/bin/python3''),
        (''modelPath'', JStr ''piper/models/en_US-lessac-medium.onnx''),
        (''configPath'', JStr ''piper/models/en_US-lessac-medium.onnx.json'')])))"
  by code_simp

section \<open>C6: a recording without speech\<close>

text \<open>
  Claim C6 at a silent recording, for which the recognizer returns one alternative with
  the empty text. The copy of \<open>transcribeWithVosk\<close> at lines 28--61 of stt.js never
  settles; the copy at lines 91--130 resolves with \<open>false\<close>.
\<close>

theorem silent_audio_never_settles_in_first_copy:
  "vosk_finalResult sample_env (Blob ''RIFF'') = Final (ResultObj (Some [Alternative (Some [])]))
   \<and> fst (transcribeWithVosk_l28 sample_env ''uploads/silence.wav'' serving_world) = Hang
   \<and> fst (transcribeWithVosk_l91 sample_env ''uploads/silence.wav'' serving_world) = Ok NoSpeech"
  by code_simp
section \<open>C7: the cleaning step\<close>

text \<open>
  Claim C7, amended. On every engine and for every text, \<open>stripEmojis\<close> yields the
  trimmed form of a text \<open>kept\<close> that is left of the input after removals: \<open>kept\<close> is a
  subsequence of the input, every code point outside the class of the regular expression
  is in it, in its place, and no zero-width joiner and no code point with the property
  \<open>Emoji_Presentation\<close> is in it. White space at both ends of \<open>kept\<close> is then removed.
  Nothing is said here of the code points with the property \<open>Emoji\<close> that lack
  \<open>Emoji_Presentation\<close>, such as the ASCII digits. On an engine for which the grinning face
  has \<open>Emoji_Presentation\<close> and the characters of \<open>hi there\<close> are outside the class, the text
  \<open>hi\<close>, grinning face, \<open>there\<close> becomes \<open>hi\<close>, two spaces, \<open>there\<close>.
\<close>

theorem stripEmojis_removes_emoji_then_trims:
  "(\<exists>kept. stripEmojis ev text = trim kept
           \<and> subseq kept text
           \<and> filter (\<lambda>c. \<not> emoji_class ev c) kept = filter (\<lambda>c. \<not> emoji_class ev c) text
           \<and> list_all (\<lambda>c. \<not> Emoji_Presentation ev c \<and> c \<noteq> 0x200D) kept)
   \<and> (Emoji_Presentation ev 0x1F600
        \<and> list_all (\<lambda>c. \<not> emoji_class ev c) [0x20, 0x65, 0x68, 0x69, 0x72, 0x74]
        \<longrightarrow> stripEmojis ev text_hi_emoji_there
              = [0x68, 0x69, 0x20, 0x20, 0x74, 0x68, 0x65, 0x72, 0x65])"
proof (intro conjI impI)
  let ?kept = "filter (\<lambda>c. \<not> emoji_class ev c) text"
  have "stripEmojis ev text = trim ?kept"
    by (simp add: stripEmojis_def replace_runs_filter)
  moreover have "subseq ?kept text"
    by (rule subseq_filter_left)
  moreover have "filter (\<lambda>c. \<not> emoji_class ev c) ?kept = ?kept"
    by simp
  moreover have "list_all (\<lambda>c. \<not> Emoji_Presentation ev c \<and> c \<noteq> 0x200D) ?kept"
    by (simp add: list_all_iff emoji_class_def)
  ultimately
  show "\<exists>kept. stripEmojis ev text = trim kept
           \<and> subseq kept text
           \<and> filter (\<lambda>c. \<not> emoji_class ev c) kept = filter (\<lambda>c. \<not> emoji_class ev c) text
           \<and> list_all (\<lambda>c. \<not> Emoji_Presentation ev c \<and> c \<noteq> 0x200D) kept"
    by blast
next
  assume a: "Emoji_Presentation ev 0x1F600
             \<and> list_all (\<lambda>c. \<not> emoji_class ev c) [0x20, 0x65, 0x68, 0x69, 0x72, 0x74]"
  then have "filter (\<lambda>c. \<not> emoji_class ev c) text_hi_emoji_there
             = [0x68, 0x69, 0x20, 0x20, 0x74, 0x68, 0x65, 0x72, 0x65]"
    by (simp add: text_hi_emoji_there_def emoji_class_def)
  then show "stripEmojis ev text_hi_emoji_there
             = [0x68, 0x69, 0x20, 0x20, 0x74, 0x68, 0x65, 0x72, 0x65]"
    by (simp add: stripEmojis_def replace_runs_filter trim_def is_js_whitespace_def)
qed

text \<open>The theorem on the sample engine, at the text \<open>hi\<close>, grinning face, \<open>there\<close>.\<close>

theorem stripEmojis_removes_emoji_then_trims_witness:
  "Emoji_Presentation sample_env 0x1F600
   \<and> list_all (\<lambda>c. \<not> emoji_class sample_env c) [0x20, 0x65, 0x68, 0x69, 0x72, 0x74]
   \<and> stripEmojis sample_env text_hi_emoji_there
       = [0x68, 0x69, 0x20, 0x20, 0x74, 0x68, 0x65, 0x72, 0x65]"
proof -
  have e: "Emoji_Presentation sample_env 0x1F600"
    by (simp add: sample_env_def unicode15_Emoji_Presentation_def in_ranges_def
          Emoji_Presentation_ranges_def)
  have k: "list_all (\<lambda>c. \<not> emoji_class sample_env c) [0x20, 0x65, 0x68, 0x69, 0x72, 0x74]"
    by (simp add: emoji_class_def sample_env_def unicode15_Emoji_def
          unicode15_Emoji_Presentation_def in_ranges_def Emoji_ranges_def
          Emoji_Presentation_ranges_def)
  from stripEmojis_removes_emoji_then_trims [of sample_env text_hi_emoji_there] e k
  show ?thesis by blast
qed

text \<open>
  Claim C7 as stated does not hold: a leading space is neither an emoji nor a joiner, and
  it is not preserved. On the sample engine the text space, \<open>hi\<close> becomes \<open>hi\<close>.
\<close>

theorem stripEmojis_drops_leading_space:
  "\<not> emoji_class sample_env 0x20 \<and> stripEmojis sample_env [0x20, 0x68, 0x69] = [0x68, 0x69]"
  by (simp add: stripEmojis_def trim_def is_js_whitespace_def emoji_class_def sample_env_def
        unicode15_Emoji_def unicode15_Emoji_Presentation_def in_ranges_def Emoji_ranges_def
        Emoji_Presentation_ranges_def)

section \<open>C8: two calls of \<open>ensureVoskModelDownloaded\<close>\<close>

text \<open>
  Claim C8 at the configuration \<open>vaskmodel = vosk-model-small-en-us-0.15\<close>. The first call
  downloads and extracts the archive and loads the model. The directory tested by the
  idempotency check is the constant \<open>model/vosk-model-en-us-0.22\<close>, which that archive does
  not create, so the second call downloads, extracts and deletes again.
\<close>

theorem second_call_transfers_again:
  "fst (ensureVoskModelDownloaded env_small_model boot_world) = Ok ()
   \<and> model (snd (ensureVoskModelDownloaded env_small_model boot_world))
     = Some (VoskModel ''./model/vosk-model-small-en-us-0.15'')
   \<and> filter is_transfer
       (trace (snd (ensureVoskModelDownloaded env_small_model
                      (snd (ensureVoskModelDownloaded env_small_model boot_world)))))
     = [EvDownload ''https://alphacephei.com/vosk/models/vosk-model-small-en-us-0.15.zip''
          ''./model/vosk-model-small-en-us-0.15.zip'',
        EvExtract ''./model/vosk-model-small-en-us-0.15.zip'' ''./model/'',
        EvUnlink ''./model/vosk-model-small-en-us-0.15.zip'',
        EvDownload ''https://alphacephei.com/vosk/models/vosk-model-small-en-us-0.15.zip''
          ''./model/vosk-model-small-en-us-0.15.zip'',
        EvExtract ''./model/vosk-model-small-en-us-0.15.zip'' ''./model/'',
        EvUnlink ''./model/vosk-model-small-en-us-0.15.zip'']"
  by code_simp

section \<open>C9: the recognition model is loaded once\<close>

text \<open>
  Claim C9. A first call of \<open>voskLoader\<close>, made while nothing is cached, with the model
  directory on disk and a library that loads it, constructs the model once, stores it in
  the process-wide variable and returns it; that call and any number of calls after it
  all return this one model, and the state after them is the state after the first.
  Whenever a call returns a model, that model is the cached one afterwards, and every
  later call returns it and changes nothing: neither the file system nor the trace of
  effects. A call that finds a cached model returns it and changes nothing. In any
  sequence of calls at most one model is constructed, and none when the cache is already
  set. No entry point of the program clears or replaces a cached model.
\<close>

theorem recognition_model_loaded_once:
  "(model w = None
    \<and> exists_at (fs w) (fs_key ev (MODEL_PATH ev))
    \<and> vosk_Model ev (fs w) (fs_key ev (MODEL_PATH ev)) = None
    \<longrightarrow> voskLoader ev w
          = (Ok (VoskModel (MODEL_PATH ev)),
             w\<lparr>model := Some (VoskModel (MODEL_PATH ev)),
               trace := trace w @ [EvModelNew (MODEL_PATH ev)]\<rparr>)
        \<and> load_calls ev (Suc n) w
          = (replicate (Suc n) (Ok (VoskModel (MODEL_PATH ev))),
             w\<lparr>model := Some (VoskModel (MODEL_PATH ev)),
               trace := trace w @ [EvModelNew (MODEL_PATH ev)]\<rparr>))
   \<and> (voskLoader ev w = (Ok h, w1)
        \<longrightarrow> model w1 = Some h
            \<and> voskLoader ev w1 = (Ok h, w1)
            \<and> load_calls ev n w1 = (replicate n (Ok h), w1))
   \<and> (model wc = Some h \<longrightarrow> voskLoader ev wc = (Ok h, wc))
   \<and> length (filter is_model_new (trace (snd (load_calls ev n w))))
       \<le> length (filter is_model_new (trace w)) + (if model w = None then 1 else 0)
   \<and> (model wc = Some h \<longrightarrow>
         model (snd (setupPiper ev wc)) = Some h
         \<and> model (snd (ensureVoskModelDownloaded ev wc)) = Some h
         \<and> model (snd (loadTtsConfigs ev wc)) = Some h
         \<and> model (snd (synthesizeWithPiper ev t v wc)) = Some h
         \<and> model (snd (transcribeWithVosk_l28 ev p wc)) = Some h
         \<and> model (snd (transcribeWithVosk_l91 ev p wc)) = Some h)"
proof (intro conjI impI)
  let ?h = "VoskModel (MODEL_PATH ev)"
  let ?w' = "w\<lparr>model := Some ?h, trace := trace w @ [EvModelNew (MODEL_PATH ev)]\<rparr>"
  assume a: "model w = None
             \<and> exists_at (fs w) (fs_key ev (MODEL_PATH ev))
             \<and> vosk_Model ev (fs w) (fs_key ev (MODEL_PATH ev)) = None"
  then show first: "voskLoader ev w = (Ok ?h, ?w')"
    by (simp add: voskLoader_def)
  have "model ?w' = Some ?h" by simp
  then have "load_calls ev n ?w' = (replicate n (Ok ?h), ?w')"
    by (rule load_calls_cached)
  with first show "load_calls ev (Suc n) w = (replicate (Suc n) (Ok ?h), ?w')"
    by simp
next
  assume r: "voskLoader ev w = (Ok h, w1)"
  then show m1: "model w1 = Some h" by (rule voskLoader_Ok_model)
  then show "voskLoader ev w1 = (Ok h, w1)" by (rule voskLoader_cached)
  from m1 show "load_calls ev n w1 = (replicate n (Ok h), w1)" by (rule load_calls_cached)
next
  assume "model wc = Some h"
  then show "voskLoader ev wc = (Ok h, wc)" by (rule voskLoader_cached)
next
  show "length (filter is_model_new (trace (snd (load_calls ev n w))))
        \<le> length (filter is_model_new (trace w)) + (if model w = None then 1 else 0)"
    by (rule load_calls_constructions)
next
  assume m: "model wc = Some h"
  show "model (snd (setupPiper ev wc)) = Some h"
    using cached_setupPiper m by (simp add: preserves_def)
  show "model (snd (ensureVoskModelDownloaded ev wc)) = Some h"
    using cached_ensureVosk m by (simp add: preserves_def)
  show "model (snd (loadTtsConfigs ev wc)) = Some h"
    using cached_loadTtsConfigs m by (simp add: preserves_def)
  show "model (snd (synthesizeWithPiper ev t v wc)) = Some h"
    using cached_synthesize m by (simp add: preserves_def)
  show "model (snd (transcribeWithVosk_l28 ev p wc)) = Some h"
    using cached_transcribe_l28 m by (simp add: preserves_def)
  show "model (snd (transcribeWithVosk_l91 ev p wc)) = Some h"
    using cached_transcribe_l91 m by (simp add: preserves_def)
qed

text \<open>
  The theorem at a process that has not loaded the model yet: the first call constructs
  and caches it, the three calls after it return it, and a provisioning run after it
  leaves it in place.
\<close>

theorem recognition_model_loaded_once_witness:
  "model unloaded_world = None
   \<and> exists_at (fs unloaded_world) (fs_key sample_env (MODEL_PATH sample_env))
   \<and> vosk_Model sample_env (fs unloaded_world) (fs_key sample_env (MODEL_PATH sample_env)) = None
   \<and> voskLoader sample_env unloaded_world
       = (Ok (VoskModel ''./model/vosk-model-en-us-0.22''), loaded_world)
   \<and> load_calls sample_env 4 unloaded_world
       = (replicate 4 (Ok (VoskModel ''./model/vosk-model-en-us-0.22'')), loaded_world)
   \<and> model loaded_world = Some (VoskModel ''./model/vosk-model-en-us-0.22'')
   \<and> trace loaded_world = [EvModelNew ''./model/vosk-model-en-us-0.22'']
   \<and> voskLoader sample_env loaded_world
       = (Ok (VoskModel ''./model/vosk-model-en-us-0.22''), loaded_world)
   \<and> load_calls sample_env 3 loaded_world
       = (replicate 3 (Ok (VoskModel ''./model/vosk-model-en-us-0.22'')), loaded_world)
   \<and> model (snd (setupPiper sample_env loaded_world))
       = Some (VoskModel ''./model/vosk-model-en-us-0.22'')"
proof -
  let ?h = "VoskModel ''./model/vosk-model-en-us-0.22''"
  have p: "MODEL_PATH sample_env = ''./model/vosk-model-en-us-0.22''"
    by (simp add: MODEL_PATH_def sample_env_def)
  have m0: "model unloaded_world = None"
    by (simp add: unloaded_world_def)
  have ex: "exists_at (fs unloaded_world) (fs_key sample_env (MODEL_PATH sample_env))"
    by code_simp
  have lib: "vosk_Model sample_env (fs unloaded_world) (fs_key sample_env (MODEL_PATH sample_env))
             = None"
    by (simp add: sample_env_def)
  have lw: "unloaded_world\<lparr>model := Some ?h, trace := trace unloaded_world @ [EvModelNew
              ''./model/vosk-model-en-us-0.22'']\<rparr> = loaded_world"
    by (simp add: loaded_world_def p)
  have m1: "model loaded_world = Some ?h"
    by (simp add: loaded_world_def p)
  have tr: "trace loaded_world = [EvModelNew ''./model/vosk-model-en-us-0.22'']"
    by (simp add: loaded_world_def unloaded_world_def serving_world_def p)
  note thm0 = recognition_model_loaded_once
         [where w = unloaded_world and ev = sample_env and ?w1.0 = loaded_world
            and wc = loaded_world and h = ?h and n = 3, unfolded p lw]
  from thm0 m0 ex lib m1 tr show ?thesis
    unfolding p by (simp add: numeral_eq_Suc)
qed

section \<open>C10: a missing voice name\<close>

text \<open>
  Claim C10. A call of \<open>synthesizeWithPiper\<close> without a voice, or with the empty string,
  is the call with the voice \<open>en_US-lessac-medium\<close>. When the configuration of that voice
  loads and names a Python and a model path, the engine is started with them, and the
  call resolves with the output path exactly when the engine exits with status 0.
\<close>

theorem missing_voice_falls_back_to_default:
  "synthesizeWithPiper ev text None = synthesizeWithPiper ev text (Some ''en_US-lessac-medium'')
   \<and> synthesizeWithPiper ev text (Some []) = synthesizeWithPiper ev text (Some ''en_US-lessac-medium'')
   \<and> (fst (require_json ev ''./tts_configs/en_US-lessac-medium.json'' w) = Ok cfg
        \<and> js_get cfg ''modelPath'' = Some (JStr mp) \<and> mp \<noteq> []
        \<and> js_get cfg ''pythonPath'' = Some (JStr py) \<and> py \<noteq> []
      \<longrightarrow> EvSpawn py
            [''-m'', ''piper'', ''--model'', path_resolve (cwd ev) [mp], ''--output_file'',
             ''uploads/'' @ randomUUID ev (uuids w) @ ''.wav'']
            (stripEmojis ev text @ [0xA])
          \<in> set (trace (snd (synthesizeWithPiper ev text None w)))
          \<and> fst (synthesizeWithPiper ev text None w)
            = (case fst (spawn_process ev py
                     [''-m'', ''piper'', ''--model'', path_resolve (cwd ev) [mp], ''--output_file'',
                      ''uploads/'' @ randomUUID ev (uuids w) @ ''.wav'']
                     (stripEmojis ev text @ [0xA]) (fs w)) of
                 Exited code so se \<Rightarrow>
                   if code = Some 0 then Ok (Some (''uploads/'' @ randomUUID ev (uuids w) @ ''.wav''))
                   else Hang
               | SpawnFailed msg \<Rightarrow> Hang))"
proof (intro conjI impI)
  show "synthesizeWithPiper ev text None = synthesizeWithPiper ev text (Some ''en_US-lessac-medium'')"
    by (rule ext) (simp add: synthesizeWithPiper_unfold or_default_def)
  show "synthesizeWithPiper ev text (Some []) = synthesizeWithPiper ev text (Some ''en_US-lessac-medium'')"
    by (rule ext) (simp add: synthesizeWithPiper_unfold or_default_def)
next
  assume a: "fst (require_json ev ''./tts_configs/en_US-lessac-medium.json'' w) = Ok cfg
        \<and> js_get cfg ''modelPath'' = Some (JStr mp) \<and> mp \<noteq> []
        \<and> js_get cfg ''pythonPath'' = Some (JStr py) \<and> py \<noteq> []"
  have d: "or_default None ''en_US-lessac-medium'' = ''en_US-lessac-medium''"
    by (simp add: or_default_def)
  have rq: "fst (require_json ev (''./tts_configs/'' @ or_default None ''en_US-lessac-medium''
                   @ ''.json'') w) = Ok cfg"
    unfolding d using a by simp
  note conf = synthesize_configured [OF rq, of mp py "text"]
  show "EvSpawn py
            [''-m'', ''piper'', ''--model'', path_resolve (cwd ev) [mp], ''--output_file'',
             ''uploads/'' @ randomUUID ev (uuids w) @ ''.wav'']
            (stripEmojis ev text @ [0xA])
          \<in> set (trace (snd (synthesizeWithPiper ev text None w)))"
    using a by (intro conf(1)) simp_all
  show "fst (synthesizeWithPiper ev text None w)
            = (case fst (spawn_process ev py
                     [''-m'', ''piper'', ''--model'', path_resolve (cwd ev) [mp], ''--output_file'',
                      ''uploads/'' @ randomUUID ev (uuids w) @ ''.wav'']
                     (stripEmojis ev text @ [0xA]) (fs w)) of
                 Exited code so se \<Rightarrow>
                   if code = Some 0 then Ok (Some (''uploads/'' @ randomUUID ev (uuids w) @ ''.wav''))
                   else Hang
               | SpawnFailed msg \<Rightarrow> Hang)"
    using a by (intro conf(2)) simp_all
qed

text \<open>The theorem at a process in which the configuration of the default voice is persisted.\<close>

theorem missing_voice_falls_back_to_default_witness:
  "fst (require_json sample_env ''./tts_configs/en_US-lessac-medium.json'' serving_world)
     = Ok (voice_config sample_env ''en_US-lessac-medium'' ''en_us_lessac'')
   \<and> js_get (voice_config sample_env ''en_US-lessac-medium'' ''en_us_lessac'') ''modelPath''
     = Some (JStr ''piper/models/en_US-lessac-medium.onnx'')
   \<and> js_get (voice_config sample_env ''en_US-lessac-medium'' ''en_us_lessac'') ''pythonPath''
     = Some (JStr ''/app/python-portable/bin/python3'')
   \<and> EvSpawn ''/app/python-portable/bin/python3''
        [''-m'', ''piper'', ''--model'',
         path_resolve (cwd sample_env) [''piper/models/en_US-lessac-medium.onnx''],
         ''--output_file'', ''uploads/'' @ randomUUID sample_env (uuids serving_world) @ ''.wav'']
        (stripEmojis sample_env text_hi @ [0xA])
      \<in> set (trace (snd (synthesizeWithPiper sample_env text_hi None serving_world)))"
proof -
  have h1: "fst (require_json sample_env ''./tts_configs/en_US-lessac-medium.json'' serving_world)
            = Ok (voice_config sample_env ''en_US-lessac-medium'' ''en_us_lessac'')"
    by code_simp
  have h2: "js_get (voice_config sample_env ''en_US-lessac-medium'' ''en_us_lessac'') ''modelPath''
            = Some (JStr ''piper/models/en_US-lessac-medium.onnx'')"
    by code_simp
  have h3: "js_get (voice_config sample_env ''en_US-lessac-medium'' ''en_us_lessac'') ''pythonPath''
            = Some (JStr ''/app/python-portable/bin/python3'')"
    by code_simp
  from missing_voice_falls_back_to_default
         [of sample_env text_hi serving_world
            "voice_config sample_env ''en_US-lessac-medium'' ''en_us_lessac''"
            "''piper/models/en_US-lessac-medium.onnx''" "''/app/python-portable/bin/python3''"]
       h1 h2 h3
  show ?thesis by blast
qed

end
